theory Spec2Isabelle
  imports Main
begin

section \<open>Streamable HTTP transport of the MCP server (src/src/http-transport.ts)\<close>

text \<open>
  The transport keeps a process-wide map of sessions, dispatches JSON-RPC requests that arrive
  by POST, answers them as one JSON body or as one Server-Sent-Events frame, and serves GET
  (replay) and DELETE (close). The embedding below follows the source function by function.

  Conventions of the embedding:
  \<^item> a JavaScript value that came out of \<open>JSON.parse\<close> is a \<open>json\<close>; \<open>undefined\<close> is
    \<open>None\<close> of \<open>json option\<close>. A number inside such a value is \<open>JNum s\<close>, where \<open>s\<close> is the
    text that \<open>Number.prototype.toString\<close> prints for it (\<open>1\<close>, \<open>-32000\<close>, \<open>0.87\<close>,
    \<open>1e+21\<close>): this is what \<open>JSON.stringify\<close> and a template literal print, and the number
    is zero exactly when the text is \<open>0\<close>. The transport computes with no such number;
  \<^item> the event counter of a session is an \<open>int\<close>: it counts up from zero by one and stays
    far below \<open>2^53\<close>, where a double stops being exact;
  \<^item> \<open>JObj\<close> lists the own properties of an object in insertion order, one entry per key;
  \<^item> the module-level \<open>sessions\<close> map is passed in and returned (\<open>string \<rightharpoonup> Session\<close>); a
    \<open>Session\<close> object is only ever reached through the map, so updating a field of the object
    is updating the map at its key;
  \<^item> an exception is a value: a handler returns \<open>Inl e\<close> when \<open>e\<close> escapes it;
  \<^item> the clock (\<open>Date.now()\<close>, \<open>new Date()\<close>) and \<open>randomUUID()\<close> are inputs of each
    request (\<open>now\<close>, \<open>uuid\<close>): every path reads each of them at most once;
  \<^item> requests are handled one after the other (no interleaving at the \<open>await\<close> points).
\<close>

subsection \<open>JavaScript values and the library functions the transport calls\<close>

datatype json =
    JNull
  | JBool bool
  | JNum string
  | JStr string
  | JArr "json list"
  | JObj "(string \<times> json) list"

text \<open>What can be thrown: an instance of \<open>Error\<close> with its message, or any other value.\<close>

datatype exn = JsError string | NonError json

text \<open>
  Decimal rendering of an integer, as a template literal prints the event counter and
  \<open>JSON.stringify\<close> prints the error codes \<open>-32000\<close> and \<open>-32601\<close>.
\<close>

fun showNat :: "nat \<Rightarrow> string" where
  "showNat n =
     (if n < 10 then [''0123456789'' ! n]
      else showNat (n div 10) @ [''0123456789'' ! (n mod 10)])"

declare showNat.simps [simp del]

definition showInt :: "int \<Rightarrow> string" where
  "showInt i = (if i < 0 then CHR ''-'' # showNat (nat (- i)) else showNat (nat i))"

text \<open>
  \<open>parseInt(s, 10)\<close>: leading white space is skipped, one sign is read, then the longest run
  of decimal digits; with no digit the result is \<open>NaN\<close>, here \<open>None\<close>. Header values are
  Latin-1, so the white space characters are the seven below.
\<close>

definition isWhiteSpace :: "char \<Rightarrow> bool" where
  "isWhiteSpace c \<longleftrightarrow>
     c \<in> set [CHR 0x09, CHR 0x0A, CHR 0x0B, CHR 0x0C, CHR 0x0D, CHR 0x20, CHR 0xA0]"

definition isDigit :: "char \<Rightarrow> bool" where
  "isDigit c \<longleftrightarrow> c \<in> set ''0123456789''"

definition digitValue :: "char \<Rightarrow> nat" where
  "digitValue c = of_char c - 48"

definition digitsValue :: "string \<Rightarrow> nat" where
  "digitsValue ds = foldl (\<lambda>a c. 10 * a + digitValue c) 0 ds"

definition parseInt :: "string \<Rightarrow> int option" where
  "parseInt s =
     (let t = dropWhile isWhiteSpace s;
          neg = (case t of c # _ \<Rightarrow> c = CHR ''-'' | [] \<Rightarrow> False);
          u = (case t of c # r \<Rightarrow> if c = CHR ''-'' \<or> c = CHR ''+'' then r else t | [] \<Rightarrow> t);
          ds = takeWhile isDigit u
      in if ds = [] then None
         else Some (if neg then - int (digitsValue ds) else int (digitsValue ds)))"

text \<open>\<open>a > b\<close> on numbers where \<open>b\<close> may be \<open>NaN\<close>: every comparison with \<open>NaN\<close> is false.\<close>

fun greaterThan :: "int \<Rightarrow> int option \<Rightarrow> bool" where
  "greaterThan a None = False"
| "greaterThan a (Some b) = (b < a)"

text \<open>\<open>String.prototype.includes\<close>: \<open>t\<close> occurs in \<open>s\<close> as a contiguous substring.\<close>

fun includes_str :: "string \<Rightarrow> string \<Rightarrow> bool" where
  "includes_str [] t = (t = [])"
| "includes_str (c # cs) t = (take (length t) (c # cs) = t \<or> includes_str cs t)"

fun join :: "string \<Rightarrow> string list \<Rightarrow> string" where
  "join sep [] = []"
| "join sep [x] = x"
| "join sep (x # y # ys) = x @ sep @ join sep (y # ys)"

text \<open>
  \<open>JSON.stringify\<close> on a \<open>json\<close>. A string is quoted with the escapes of ECMAScript's
  QuoteJSONString; the double quote is \<open>CHR 0x22\<close> and the backslash \<open>CHR 0x5C\<close>.
\<close>

definition hexDigit :: "nat \<Rightarrow> char" where
  "hexDigit n = ''0123456789abcdef'' ! n"

definition quoteChar :: "char \<Rightarrow> string" where
  "quoteChar c =
     (if c = CHR 0x22 then [CHR 0x5C, CHR 0x22]
      else if c = CHR 0x5C then [CHR 0x5C, CHR 0x5C]
      else if c = CHR 0x08 then [CHR 0x5C, CHR ''b'']
      else if c = CHR 0x09 then [CHR 0x5C, CHR ''t'']
      else if c = CHR 0x0A then [CHR 0x5C, CHR ''n'']
      else if c = CHR 0x0C then [CHR 0x5C, CHR ''f'']
      else if c = CHR 0x0D then [CHR 0x5C, CHR ''r'']
      else if (of_char c :: nat) < 32
        then [CHR 0x5C, CHR ''u'', CHR ''0'', CHR ''0'',
              hexDigit (of_char c div 16), hexDigit (of_char c mod 16)]
      else [c])"

definition quote :: "string \<Rightarrow> string" where
  "quote s = CHR 0x22 # concat (map quoteChar s) @ [CHR 0x22]"

fun stringify :: "json \<Rightarrow> string" where
  "stringify JNull = ''null''"
| "stringify (JBool b) = (if b then ''true'' else ''false'')"
| "stringify (JNum s) = s"
| "stringify (JStr s) = quote s"
| "stringify (JArr xs) = ''['' @ join '','' (map stringify xs) @ '']''"
| "stringify (JObj kvs) =
     ''{'' @ join '','' (map (\<lambda>kv. quote (fst kv) @ '':'' @ stringify (snd kv)) kvs) @ ''}''"

text \<open>
  Conversion to a string inside a template literal. An object with an own \<open>toString\<close>
  property read from JSON has a \<open>toString\<close> that is not callable, and no \<open>valueOf\<close> that
  yields a primitive: the conversion throws a \<open>TypeError\<close> (\<open>None\<close>). An array joins the
  conversions of its elements with commas, \<open>null\<close> elements giving the empty string.
\<close>

fun those_strings :: "string option list \<Rightarrow> string list option" where
  "those_strings [] = Some []"
| "those_strings (None # xs) = None"
| "those_strings (Some x # xs) = (case those_strings xs of None \<Rightarrow> None | Some ys \<Rightarrow> Some (x # ys))"

fun toString :: "json \<Rightarrow> string option" where
  "toString JNull = Some ''null''"
| "toString (JBool b) = Some (if b then ''true'' else ''false'')"
| "toString (JNum s) = Some s"
| "toString (JStr s) = Some s"
| "toString (JArr xs) =
     map_option (join '','')
       (those_strings (map (\<lambda>x. if x = JNull then Some [] else toString x) xs))"
| "toString (JObj kvs) =
     (if map_of kvs ''toString'' = None then Some ''[object Object]'' else None)"

text \<open>Truthiness of a value: what \<open>!v\<close> and \<open>v || d\<close> test.\<close>

fun truthy :: "json \<Rightarrow> bool" where
  "truthy JNull = False"
| "truthy (JBool b) = b"
| "truthy (JNum s) = (s \<noteq> ''0'')"
| "truthy (JStr s) = (s \<noteq> [])"
| "truthy (JArr xs) = True"
| "truthy (JObj kvs) = True"

text \<open>
  Reading a property \<open>v.k\<close> of a value that is not \<open>null\<close>, for the keys the transport reads
  (\<open>id\<close>, \<open>method\<close>, \<open>params\<close>, \<open>name\<close>, \<open>arguments\<close>): none of them is an inherited
  property of a parsed value, so only the own properties of an object answer.
\<close>

fun getProp :: "json \<Rightarrow> string \<Rightarrow> json option" where
  "getProp (JObj kvs) k = map_of kvs k"
| "getProp v k = None"

text \<open>Optional chaining \<open>v?.k\<close>: \<open>undefined\<close> when \<open>v\<close> is \<open>undefined\<close> or \<open>null\<close>.\<close>

fun optProp :: "json option \<Rightarrow> string \<Rightarrow> json option" where
  "optProp None k = None"
| "optProp (Some v) k = getProp v k"

subsection \<open>Types of the transport\<close>

record JsonRpcResponse =
  id_rpc :: "json option"
  result :: "json option"
  error :: "(int \<times> string) option"

text \<open>
  What \<open>JSON.stringify\<close> sees of a response: the constant \<open>jsonrpc\<close> member, then the
  members that are not \<open>undefined\<close>, in the order of the object literal.
\<close>

definition responseJson :: "JsonRpcResponse \<Rightarrow> json" where
  "responseJson r =
     JObj ([(''jsonrpc'', JStr ''2.0'')]
       @ (case id_rpc r of None \<Rightarrow> [] | Some i \<Rightarrow> [(''id'', i)])
       @ (case result r of None \<Rightarrow> [] | Some v \<Rightarrow> [(''result'', v)])
       @ (case error r of None \<Rightarrow> []
          | Some (c, m) \<Rightarrow> [(''error'', JObj [(''code'', JNum (showInt c)),
                                             (''message'', JStr m)])]))"

record PendingEvent =
  id_event :: int
  data :: JsonRpcResponse

record Session =
  id_session :: string
  createdAt :: int
  lastEventId :: int
  pendingEvents :: "PendingEvent list"

type_synonym sessions = "string \<rightharpoonup> Session"

text \<open>
  The transport object. \<open>toolExecutor\<close> is \<open>ToolExecutor.execute\<close> as the transport sees it:
  given the tool name and the arguments it returns a value or throws. \<open>TOOL_DEFINITIONS\<close> is
  the imported table of tool descriptions, taken as given.
\<close>

record HttpTransport =
  toolExecutor :: "json \<Rightarrow> json \<Rightarrow> exn + json"
  serverName :: string
  serverVersion :: string
  TOOL_DEFINITIONS :: json

text \<open>
  The request as the handlers read it: the method, the path name that \<open>new URL\<close> computes
  (\<open>None\<close> when \<open>new URL\<close> throws), the three headers, and the body. The body is given by
  what \<open>readBody\<close> and \<open>JSON.parse\<close> make of it: the read is rejected, the text is not
  JSON, or it parses to a value.
\<close>

datatype body = Rejected exn | Malformed | Parsed json

record IncomingMessage =
  httpMethod :: string
  pathname :: "string option"
  mcp_session_id :: "string option"
  last_event_id :: "string option"
  accept :: "string option"
  requestBody :: body

text \<open>
  The response object: the status code (200 until \<open>writeHead\<close> sets it), the headers, the
  chunks written in order, and whether \<open>end\<close> was called.
\<close>

record ServerResponse =
  statusCode :: nat
  responseHeaders :: "(string \<times> string) list"
  chunks :: "string list"
  ended :: bool

definition newResponse :: ServerResponse where
  "newResponse = \<lparr>statusCode = 200, responseHeaders = [], chunks = [], ended = False\<rparr>"

definition putHeader :: "string \<times> string \<Rightarrow> (string \<times> string) list \<Rightarrow> (string \<times> string) list" where
  "putHeader kv hs = filter (\<lambda>h. fst h \<noteq> fst kv) hs @ [kv]"

definition setHeader :: "string \<Rightarrow> string \<Rightarrow> ServerResponse \<Rightarrow> ServerResponse" where
  "setHeader k v res = res\<lparr>responseHeaders := putHeader (k, v) (responseHeaders res)\<rparr>"

definition writeHead :: "nat \<Rightarrow> (string \<times> string) list \<Rightarrow> ServerResponse \<Rightarrow> ServerResponse" where
  "writeHead code hs res =
     res\<lparr>statusCode := code, responseHeaders := fold putHeader hs (responseHeaders res)\<rparr>"

definition writeChunk :: "string \<Rightarrow> ServerResponse \<Rightarrow> ServerResponse" where
  "writeChunk s res = res\<lparr>chunks := chunks res @ [s]\<rparr>"

definition endResponse :: "ServerResponse \<Rightarrow> ServerResponse" where
  "endResponse res = res\<lparr>ended := True\<rparr>"

definition endWith :: "string \<Rightarrow> ServerResponse \<Rightarrow> ServerResponse" where
  "endWith s res = endResponse (writeChunk s res)"

subsection \<open>Session store\<close>

definition SESSION_TTL_MS :: int where
  "SESSION_TTL_MS = 30 * 60 * 1000"

definition createSession :: "int \<Rightarrow> string \<Rightarrow> sessions \<Rightarrow> sessions \<times> Session" where
  "createSession now uuid st =
     (let session = \<lparr>id_session = uuid, createdAt = now, lastEventId = 0, pendingEvents = []\<rparr>
      in (st(id_session session \<mapsto> session), session))"

definition getSession :: "int \<Rightarrow> string \<Rightarrow> sessions \<Rightarrow> sessions \<times> Session option" where
  "getSession now i st =
     (case st i of
        None \<Rightarrow> (st, None)
      | Some session \<Rightarrow>
          if now - createdAt session > SESSION_TTL_MS then (st(i := None), None)
          else (st, Some session))"

text \<open>The periodic cleanup, run every 60 seconds by \<open>setInterval\<close>.\<close>

definition sweep :: "int \<Rightarrow> sessions \<Rightarrow> sessions" where
  "sweep now st =
     (\<lambda>i. case st i of
        None \<Rightarrow> None
      | Some session \<Rightarrow> if now - createdAt session > SESSION_TTL_MS then None else Some session)"

subsection \<open>Dispatch\<close>

text \<open>The message the \<open>catch\<close> clause of \<open>processRequest\<close> reports for a thrown value.\<close>

fun caughtMessage :: "exn \<Rightarrow> string" where
  "caughtMessage (JsError m) = m"
| "caughtMessage (NonError v) = ''Unknown error''"

text \<open>
  \<open>processRequest\<close>. The destructuring of the request stands before the \<open>try\<close>: on \<open>null\<close>
  it throws a \<open>TypeError\<close> that leaves the function. Everything thrown inside the \<open>try\<close> is
  turned into the error \<open>-32000\<close>.
\<close>

definition processRequest :: "HttpTransport \<Rightarrow> json \<Rightarrow> exn + JsonRpcResponse" where
  "processRequest this request =
     (if request = JNull then Inl (JsError ''Cannot destructure property of null'')
      else
        let i = getProp request ''id'';
            meth = getProp request ''method'';
            params = getProp request ''params''
        in
          if meth = Some (JStr ''initialize'') then
            Inr \<lparr>id_rpc = i,
                 result = Some (JObj
                   [(''protocolVersion'', JStr ''2025-03-26''),
                    (''capabilities'', JObj [(''tools'', JObj []), (''resources'', JObj [])]),
                    (''serverInfo'', JObj [(''name'', JStr (serverName this)),
                                           (''version'', JStr (serverVersion this))])]),
                 error = None\<rparr>
          else if meth = Some (JStr ''tools/list'') then
            Inr \<lparr>id_rpc = i, result = Some (JObj [(''tools'', TOOL_DEFINITIONS this)]),
                 error = None\<rparr>
          else if meth = Some (JStr ''tools/call'') then
            (case optProp params ''name'' of
               None \<Rightarrow>
                 Inr \<lparr>id_rpc = i, result = None,
                      error = Some (- 32000, ''Tool name required'')\<rparr>
             | Some name \<Rightarrow>
                 if \<not> truthy name then
                   Inr \<lparr>id_rpc = i, result = None,
                        error = Some (- 32000, ''Tool name required'')\<rparr>
                 else
                   (case toolExecutor this name
                           (case optProp params ''arguments'' of
                              None \<Rightarrow> JObj []
                            | Some a \<Rightarrow> if truthy a then a else JObj []) of
                      Inl e \<Rightarrow>
                        Inr \<lparr>id_rpc = i, result = None,
                             error = Some (- 32000, caughtMessage e)\<rparr>
                    | Inr v \<Rightarrow>
                        Inr \<lparr>id_rpc = i,
                             result = Some (JObj
                               [(''content'', JArr
                                  [JObj [(''type'', JStr ''text''),
                                         (''text'', JStr (stringify v))]])]),
                             error = None\<rparr>))
          else if meth = Some (JStr ''ping'') then
            Inr \<lparr>id_rpc = i, result = Some (JObj []), error = None\<rparr>
          else
            (case (case meth of None \<Rightarrow> Some ''undefined'' | Some m \<Rightarrow> toString m) of
               None \<Rightarrow>
                 Inr \<lparr>id_rpc = i, result = None,
                      error = Some (- 32000, ''Cannot convert object to primitive value'')\<rparr>
             | Some m \<Rightarrow>
                 Inr \<lparr>id_rpc = i, result = None,
                      error = Some (- 32601, ''Method not found: '' @ m)\<rparr>))"

subsection \<open>Handlers\<close>

text \<open>
  The two chunks of one SSE frame, \<open>id: <n>\<close> and \<open>data: <json>\<close>, and the two writes
  that send them, as \<open>handlePost\<close> and the replay loop of \<open>handleGet\<close> both make them.
\<close>

definition sseFrame :: "int \<Rightarrow> JsonRpcResponse \<Rightarrow> string list" where
  "sseFrame n r =
     [''id: '' @ showInt n @ ''\<newline>'',
      ''data: '' @ stringify (responseJson r) @ ''\<newline>\<newline>'']"

definition writeFrame :: "int \<Rightarrow> JsonRpcResponse \<Rightarrow> ServerResponse \<Rightarrow> ServerResponse" where
  "writeFrame n r res = fold writeChunk (sseFrame n r) res"

text \<open>
  The block "get or create session" of \<open>handlePost\<close>: with a non-empty \<open>Mcp-Session-Id\<close>
  header the session is looked up (\<open>None\<close> when the lookup fails), otherwise a session is
  created. The result is the session id that the rest of the handler uses, and the session.
\<close>

definition getOrCreateSession ::
  "int \<Rightarrow> string \<Rightarrow> string option \<Rightarrow> sessions \<Rightarrow> sessions \<times> (string \<times> Session) option" where
  "getOrCreateSession now uuid header st =
     (case header of
        None \<Rightarrow>
          (case createSession now uuid st of
             (st1, session) \<Rightarrow> (st1, Some (id_session session, session)))
      | Some sessionId \<Rightarrow>
          if sessionId = [] then
            (case createSession now uuid st of
               (st1, session) \<Rightarrow> (st1, Some (id_session session, session)))
          else
            (case getSession now sessionId st of
               (st1, None) \<Rightarrow> (st1, None)
             | (st1, Some existing) \<Rightarrow> (st1, Some (sessionId, existing))))"

definition handlePost ::
  "HttpTransport \<Rightarrow> int \<Rightarrow> string \<Rightarrow> IncomingMessage \<Rightarrow> ServerResponse \<Rightarrow> sessions
     \<Rightarrow> sessions \<times> (exn + ServerResponse)" where
  "handlePost this now uuid req res st =
     (case requestBody req of
        Rejected e \<Rightarrow> (st, Inl e)
      | Malformed \<Rightarrow>
          (st, Inr (endWith (stringify (JObj [(''error'', JStr ''Invalid JSON'')]))
                     (writeHead 400 [(''Content-Type'', ''application/json'')] res)))
      | Parsed request \<Rightarrow>
          (case getOrCreateSession now uuid (mcp_session_id req) st of
             (st1, None) \<Rightarrow>
               (st1, Inr (endWith (stringify (JObj [(''error'', JStr ''Session not found'')]))
                           (writeHead 404 [(''Content-Type'', ''application/json'')] res)))
           | (st1, Some (sessionId, session)) \<Rightarrow>
               (let res1 = setHeader ''Mcp-Session-Id'' sessionId res in
                case processRequest this request of
                  Inl e \<Rightarrow> (st1, Inl e)
                | Inr response \<Rightarrow>
                    if includes_str (case accept req of None \<Rightarrow> [] | Some a \<Rightarrow> a)
                         ''text/event-stream''
                    then
                      (let res2 = writeHead 200
                                    [(''Content-Type'', ''text/event-stream''),
                                     (''Cache-Control'', ''no-cache''),
                                     (''Connection'', ''keep-alive'')] res1;
                           eventId = lastEventId session + 1
                       in (st1(sessionId \<mapsto> session\<lparr>lastEventId := eventId\<rparr>),
                           Inr (endResponse (writeFrame eventId response res2))))
                    else
                      (st1, Inr (endWith (stringify (responseJson response))
                                  (writeHead 200 [(''Content-Type'', ''application/json'')]
                                     res1))))))"

text \<open>
  \<open>handleGet\<close> leaves the response open on success: \<open>end\<close> is only called when the client
  closes the connection.
\<close>

definition handleGet ::
  "int \<Rightarrow> IncomingMessage \<Rightarrow> ServerResponse \<Rightarrow> sessions \<Rightarrow> sessions \<times> ServerResponse" where
  "handleGet now req res st =
     (case mcp_session_id req of
        None \<Rightarrow>
          (st, endWith (stringify (JObj [(''error'', JStr ''Mcp-Session-Id header required'')]))
                 (writeHead 400 [(''Content-Type'', ''application/json'')] res))
      | Some sessionId \<Rightarrow>
          if sessionId = [] then
            (st, endWith (stringify (JObj [(''error'', JStr ''Mcp-Session-Id header required'')]))
                   (writeHead 400 [(''Content-Type'', ''application/json'')] res))
          else
            (case getSession now sessionId st of
               (st1, None) \<Rightarrow>
                 (st1, endWith (stringify (JObj [(''error'', JStr ''Session not found'')]))
                         (writeHead 404 [(''Content-Type'', ''application/json'')] res))
             | (st1, Some session) \<Rightarrow>
                 (let res1 = writeHead 200
                               [(''Content-Type'', ''text/event-stream''),
                                (''Cache-Control'', ''no-cache''),
                                (''Connection'', ''keep-alive''),
                                (''Mcp-Session-Id'', sessionId)] res
                  in case last_event_id req of
                       None \<Rightarrow> (st1, res1)
                     | Some lastEventId_header \<Rightarrow>
                         if lastEventId_header = [] then (st1, res1)
                         else
                           (let lastId = parseInt lastEventId_header;
                                missedEvents =
                                  filter (\<lambda>e. greaterThan (id_event e) lastId)
                                    (pendingEvents session)
                            in (st1, fold (\<lambda>e. writeFrame (id_event e) (data e))
                                       missedEvents res1)))))"

definition handleDelete ::
  "IncomingMessage \<Rightarrow> ServerResponse \<Rightarrow> sessions \<Rightarrow> sessions \<times> ServerResponse" where
  "handleDelete req res st =
     (case mcp_session_id req of
        None \<Rightarrow> (st, endResponse (writeHead 204 [] res))
      | Some sessionId \<Rightarrow>
          if sessionId = [] then (st, endResponse (writeHead 204 [] res))
          else (st(sessionId := None), endResponse (writeHead 204 [] res)))"

text \<open>
  The router. \<open>new URL\<close> is evaluated first and may throw; there is no \<open>try\<close> in
  \<open>handleRequest\<close>, so whatever escapes a handler escapes the router.
\<close>

definition corsHeaders :: "ServerResponse \<Rightarrow> ServerResponse" where
  "corsHeaders res =
     setHeader ''Access-Control-Expose-Headers'' ''Mcp-Session-Id''
       (setHeader ''Access-Control-Allow-Headers'' ''Content-Type, Mcp-Session-Id, Last-Event-ID''
         (setHeader ''Access-Control-Allow-Methods'' ''GET, POST, DELETE, OPTIONS''
           (setHeader ''Access-Control-Allow-Origin'' ''*'' res)))"

definition handleRequest ::
  "HttpTransport \<Rightarrow> int \<Rightarrow> string \<Rightarrow> IncomingMessage \<Rightarrow> sessions
     \<Rightarrow> sessions \<times> (exn + ServerResponse)" where
  "handleRequest this now uuid req st =
     (case pathname req of
        None \<Rightarrow> (st, Inl (JsError ''Invalid URL''))
      | Some path \<Rightarrow>
          (let res = corsHeaders newResponse in
           if httpMethod req = ''OPTIONS'' then (st, Inr (endResponse (writeHead 204 [] res)))
           else if path = ''/mcp'' \<or> path = ''/'' then
             (if httpMethod req = ''POST'' then handlePost this now uuid req res st
              else if httpMethod req = ''GET'' then
                (case handleGet now req res st of (st1, res1) \<Rightarrow> (st1, Inr res1))
              else if httpMethod req = ''DELETE'' then
                (case handleDelete req res st of (st1, res1) \<Rightarrow> (st1, Inr res1))
              else (st, Inr (endResponse (writeHead 405 [] res))))
           else if path = ''/health'' then
             (st, Inr (endWith
                         (stringify (JObj [(''status'', JStr ''ok''),
                                           (''server'', JStr (serverName this)),
                                           (''version'', JStr (serverVersion this))]))
                         (writeHead 200 [(''Content-Type'', ''application/json'')] res)))
           else (st, Inr (endResponse (writeHead 404 [] res)))))"

subsection \<open>Runs of the server\<close>

text \<open>
  What happens to the store over time: requests, each with the transport that serves it and
  the clock and identifier it reads, and ticks of the cleanup timer.
\<close>

datatype event =
    Request HttpTransport int string IncomingMessage
  | Sweep int

fun step :: "event \<Rightarrow> sessions \<Rightarrow> sessions \<times> (exn + ServerResponse) list" where
  "step (Request this now uuid req) st =
     (case handleRequest this now uuid req st of (st1, out) \<Rightarrow> (st1, [out]))"
| "step (Sweep now) st = (sweep now st, [])"

fun run :: "event list \<Rightarrow> sessions \<Rightarrow> sessions \<times> (exn + ServerResponse) list" where
  "run [] st = (st, [])"
| "run (e # es) st =
     (case step e st of
        (st1, outs1) \<Rightarrow> (case run es st1 of (st2, outs2) \<Rightarrow> (st2, outs1 @ outs2)))"

fun drawnUuid :: "event \<Rightarrow> string list" where
  "drawnUuid (Request this now uuid req) = [uuid]"
| "drawnUuid (Sweep now) = []"

subsection \<open>Reading a response\<close>

definition statusOf :: "exn + ServerResponse \<Rightarrow> nat option" where
  "statusOf out = (case out of Inl e \<Rightarrow> None | Inr res \<Rightarrow> Some (statusCode res))"

definition chunksOf :: "exn + ServerResponse \<Rightarrow> string list" where
  "chunksOf out = (case out of Inl e \<Rightarrow> [] | Inr res \<Rightarrow> chunks res)"

definition getHeader :: "ServerResponse \<Rightarrow> string \<Rightarrow> string option" where
  "getHeader res k = map_of (responseHeaders res) k"

text \<open>The event ids announced on the \<open>id:\<close> lines of the chunks of a response.\<close>

definition frameIds :: "string list \<Rightarrow> int list" where
  "frameIds cs =
     List.map_filter (\<lambda>c. if take 4 c = ''id: '' then parseInt (drop 4 c) else None) cs"

text \<open>The event ids a response emits for session \<open>sid\<close>: those of a response that names it.\<close>

definition emittedIds :: "string \<Rightarrow> exn + ServerResponse \<Rightarrow> int list" where
  "emittedIds sid out =
     (case out of
        Inl e \<Rightarrow> []
      | Inr res \<Rightarrow>
          if getHeader res ''Mcp-Session-Id'' = Some sid then frameIds (chunks res) else [])"

text \<open>The arguments \<open>processRequest\<close> passes to the tool: \<open>params.arguments || {}\<close>.\<close>

definition callArguments :: "json option \<Rightarrow> json" where
  "callArguments params =
     (case optProp params ''arguments'' of
        None \<Rightarrow> JObj []
      | Some a \<Rightarrow> if truthy a then a else JObj [])"

text \<open>Whether a request asks for the SSE answer: its \<open>Accept\<close> header names the media type.\<close>

definition wantsEventStream :: "IncomingMessage \<Rightarrow> bool" where
  "wantsEventStream req =
     includes_str (case accept req of None \<Rightarrow> [] | Some a \<Rightarrow> a) ''text/event-stream''"

subsection \<open>Example inputs\<close>

definition exampleTransport :: HttpTransport where
  "exampleTransport =
     \<lparr>toolExecutor =
        (\<lambda>name args. if name = JStr ''echo'' then Inr args else Inl (JsError ''not found'')),
      serverName = ''lakehouse42'', serverVersion = ''0.1.0'', TOOL_DEFINITIONS = JArr []\<rparr>"

definition pingRequest :: json where
  "pingRequest =
     JObj [(''jsonrpc'', JStr ''2.0''), (''id'', JNum ''1''), (''method'', JStr ''ping'')]"

definition exampleMessage :: "string \<Rightarrow> string \<Rightarrow> string option \<Rightarrow> string option \<Rightarrow> body
    \<Rightarrow> IncomingMessage" where
  "exampleMessage m p sid a b =
     \<lparr>httpMethod = m, pathname = Some p, mcp_session_id = sid, last_event_id = None,
      accept = a, requestBody = b\<rparr>"

text \<open>A transport whose tool executor throws a string, a value that is no \<open>Error\<close>.\<close>

definition throwingTransport :: HttpTransport where
  "throwingTransport =
     \<lparr>toolExecutor = (\<lambda>name args. Inl (NonError (JStr ''boom''))),
      serverName = ''lakehouse42'', serverVersion = ''0.1.0'', TOOL_DEFINITIONS = JArr []\<rparr>"

text \<open>
  A run: a streamed ping creates session \<open>u1\<close>, a second streamed ping uses it, then a GET, a
  tick of the cleanup timer, a ping answered as plain JSON and a third streamed ping.
\<close>

definition exampleRun :: "event list" where
  "exampleRun =
     [Request exampleTransport 0 ''u1''
        (exampleMessage ''POST'' ''/mcp'' None (Some ''text/event-stream'') (Parsed pingRequest)),
      Request exampleTransport 10 ''u2''
        (exampleMessage ''POST'' ''/mcp'' (Some ''u1'') (Some ''text/event-stream'')
           (Parsed pingRequest)),
      Request exampleTransport 20 ''u3''
        (exampleMessage ''GET'' ''/mcp'' (Some ''u1'') None Malformed),
      Sweep 60000,
      Request exampleTransport 60010 ''u4''
        (exampleMessage ''POST'' ''/mcp'' (Some ''u1'') (Some ''application/json'')
           (Parsed pingRequest)),
      Request exampleTransport 60020 ''u5''
        (exampleMessage ''POST'' ''/mcp'' (Some ''u1'') (Some ''text/event-stream'')
           (Parsed pingRequest))]"


section \<open>Properties\<close>

subsection \<open>The response object\<close>

lemma statusCode_simps [simp]:
  "statusCode (setHeader k v res) = statusCode res"
  "statusCode (writeHead code hs res) = code"
  "statusCode (writeChunk s res) = statusCode res"
  "statusCode (endResponse res) = statusCode res"
  "statusCode (endWith s res) = statusCode res"
  "statusCode (corsHeaders res) = statusCode res"
  by (simp_all add: setHeader_def writeHead_def writeChunk_def endResponse_def endWith_def
        corsHeaders_def)

lemma chunks_simps [simp]:
  "chunks (setHeader k v res) = chunks res"
  "chunks (writeHead code hs res) = chunks res"
  "chunks (writeChunk s res) = chunks res @ [s]"
  "chunks (endResponse res) = chunks res"
  "chunks (endWith s res) = chunks res @ [s]"
  "chunks (corsHeaders res) = chunks res"
  "chunks newResponse = []"
  by (simp_all add: setHeader_def writeHead_def writeChunk_def endResponse_def endWith_def
        corsHeaders_def newResponse_def)

lemma ended_simps [simp]:
  "ended (setHeader k v res) = ended res"
  "ended (writeHead code hs res) = ended res"
  "ended (writeChunk s res) = ended res"
  "ended (endResponse res) = True"
  "ended (endWith s res) = True"
  "ended (corsHeaders res) = ended res"
  "ended newResponse = False"
  by (simp_all add: setHeader_def writeHead_def writeChunk_def endResponse_def endWith_def
        corsHeaders_def newResponse_def)

lemma responseHeaders_simps [simp]:
  "responseHeaders (writeChunk s res) = responseHeaders res"
  "responseHeaders (endResponse res) = responseHeaders res"
  "responseHeaders (endWith s res) = responseHeaders res"
  by (simp_all add: writeChunk_def endResponse_def endWith_def)

lemma writeFrame_simps [simp]:
  "statusCode (writeFrame n r res) = statusCode res"
  "chunks (writeFrame n r res) = chunks res @ sseFrame n r"
  "ended (writeFrame n r res) = ended res"
  "responseHeaders (writeFrame n r res) = responseHeaders res"
  by (simp_all add: writeFrame_def sseFrame_def)

lemma fold_writeFrame [simp]:
  "statusCode (fold (\<lambda>e. writeFrame (id_event e) (data e)) es res) = statusCode res"
  "chunks (fold (\<lambda>e. writeFrame (id_event e) (data e)) es res) =
     chunks res @ concat (map (\<lambda>e. sseFrame (id_event e) (data e)) es)"
  "ended (fold (\<lambda>e. writeFrame (id_event e) (data e)) es res) = ended res"
  "responseHeaders (fold (\<lambda>e. writeFrame (id_event e) (data e)) es res) = responseHeaders res"
  by (induction es arbitrary: res) simp_all

lemma map_of_putHeader [simp]:
  "map_of (putHeader (k, v) hs) k' = (if k' = k then Some v else map_of hs k')"
  by (induction hs) (auto simp add: putHeader_def map_add_def split: option.splits)

lemma responseHeaders_setHeader [simp]:
  "responseHeaders (setHeader k v res) = putHeader (k, v) (responseHeaders res)"
  by (simp add: setHeader_def)

lemma responseHeaders_writeHead [simp]:
  "responseHeaders (writeHead code hs res) = fold putHeader hs (responseHeaders res)"
  by (simp add: writeHead_def)

lemma session_header_cors [simp]:
  "map_of (responseHeaders (corsHeaders newResponse)) ''Mcp-Session-Id'' = None"
  by (simp add: corsHeaders_def newResponse_def)

lemma getHeader_map_of [simp]: "getHeader res k = map_of (responseHeaders res) k"
  by (simp add: getHeader_def)

lemma statusOf_simps [simp]:
  "statusOf (Inl e) = None"
  "statusOf (Inr res) = Some (statusCode res)"
  by (simp_all add: statusOf_def)

subsection \<open>The router\<close>

lemma handleRequest_invalid_url:
  "pathname req = None \<Longrightarrow> handleRequest this now uuid req st = (st, Inl (JsError ''Invalid URL''))"
  by (simp add: handleRequest_def)

lemma handleRequest_options:
  "pathname req = Some path \<Longrightarrow> httpMethod req = ''OPTIONS'' \<Longrightarrow>
   handleRequest this now uuid req st =
     (st, Inr (endResponse (writeHead 204 [] (corsHeaders newResponse))))"
  by (simp add: handleRequest_def)

lemma handleRequest_post:
  "pathname req = Some path \<Longrightarrow> path = ''/mcp'' \<or> path = ''/'' \<Longrightarrow> httpMethod req = ''POST'' \<Longrightarrow>
   handleRequest this now uuid req st = handlePost this now uuid req (corsHeaders newResponse) st"
  by (auto simp add: handleRequest_def)

lemma handleRequest_get:
  "pathname req = Some path \<Longrightarrow> path = ''/mcp'' \<or> path = ''/'' \<Longrightarrow> httpMethod req = ''GET'' \<Longrightarrow>
   handleRequest this now uuid req st =
     (case handleGet now req (corsHeaders newResponse) st of (st1, res1) \<Rightarrow> (st1, Inr res1))"
  by (auto simp add: handleRequest_def)

lemma handleRequest_delete:
  "pathname req = Some path \<Longrightarrow> path = ''/mcp'' \<or> path = ''/'' \<Longrightarrow> httpMethod req = ''DELETE'' \<Longrightarrow>
   handleRequest this now uuid req st =
     (case handleDelete req (corsHeaders newResponse) st of (st1, res1) \<Rightarrow> (st1, Inr res1))"
  by (auto simp add: handleRequest_def)

lemma handleRequest_other_method:
  "pathname req = Some path \<Longrightarrow> path = ''/mcp'' \<or> path = ''/'' \<Longrightarrow>
   httpMethod req \<notin> {''OPTIONS'', ''POST'', ''GET'', ''DELETE''} \<Longrightarrow>
   handleRequest this now uuid req st =
     (st, Inr (endResponse (writeHead 405 [] (corsHeaders newResponse))))"
  by (auto simp add: handleRequest_def)

lemma handleRequest_health:
  "pathname req = Some ''/health'' \<Longrightarrow> httpMethod req \<noteq> ''OPTIONS'' \<Longrightarrow>
   handleRequest this now uuid req st =
     (st, Inr (endWith
                 (stringify (JObj [(''status'', JStr ''ok''),
                                   (''server'', JStr (serverName this)),
                                   (''version'', JStr (serverVersion this))]))
                 (writeHead 200 [(''Content-Type'', ''application/json'')]
                    (corsHeaders newResponse))))"
  by (simp add: handleRequest_def)

lemma handleRequest_other_path:
  "pathname req = Some path \<Longrightarrow> path \<notin> {''/mcp'', ''/'', ''/health''} \<Longrightarrow>
   httpMethod req \<noteq> ''OPTIONS'' \<Longrightarrow>
   handleRequest this now uuid req st =
     (st, Inr (endResponse (writeHead 404 [] (corsHeaders newResponse))))"
  by (simp add: handleRequest_def)


subsection \<open>Looking a session up, creating one\<close>

lemma getSession_absent: "st sid = None \<Longrightarrow> getSession now sid st = (st, None)"
  by (simp add: getSession_def)

lemma getSession_expired:
  "st sid = Some s \<Longrightarrow> now - createdAt s > SESSION_TTL_MS \<Longrightarrow>
   getSession now sid st = (st(sid := None), None)"
  by (simp add: getSession_def)

lemma getSession_live:
  "st sid = Some s \<Longrightarrow> \<not> now - createdAt s > SESSION_TTL_MS \<Longrightarrow>
   getSession now sid st = (st, Some s)"
  by (simp add: getSession_def)

lemma getSession_cases:
  "getSession now sid st = (st(sid := None), None) \<or> (\<exists>s. st sid = Some s \<and> getSession now sid st = (st, Some s))"
  by (cases "st sid") (auto simp add: getSession_def)

lemma getOrCreateSession_create:
  "header = None \<or> header = Some [] \<Longrightarrow>
   getOrCreateSession now uuid header st =
     (st(uuid \<mapsto> \<lparr>id_session = uuid, createdAt = now, lastEventId = 0, pendingEvents = []\<rparr>),
      Some (uuid, \<lparr>id_session = uuid, createdAt = now, lastEventId = 0, pendingEvents = []\<rparr>))"
  by (auto simp add: getOrCreateSession_def createSession_def Let_def)

lemma getOrCreateSession_lookup:
  "sid \<noteq> [] \<Longrightarrow>
   getOrCreateSession now uuid (Some sid) st =
     (case getSession now sid st of
        (st1, None) \<Rightarrow> (st1, None)
      | (st1, Some s) \<Rightarrow> (st1, Some (sid, s)))"
  by (simp add: getOrCreateSession_def)

subsection \<open>The POST handler, case by case\<close>

lemma handlePost_rejected:
  "requestBody req = Rejected e \<Longrightarrow> handlePost this now uuid req res st = (st, Inl e)"
  by (simp add: handlePost_def)

lemma handlePost_malformed:
  "requestBody req = Malformed \<Longrightarrow>
   handlePost this now uuid req res st =
     (st, Inr (endWith (stringify (JObj [(''error'', JStr ''Invalid JSON'')]))
                (writeHead 400 [(''Content-Type'', ''application/json'')] res)))"
  by (simp add: handlePost_def)

lemma handlePost_no_session:
  "requestBody req = Parsed request \<Longrightarrow>
   getOrCreateSession now uuid (mcp_session_id req) st = (st1, None) \<Longrightarrow>
   handlePost this now uuid req res st =
     (st1, Inr (endWith (stringify (JObj [(''error'', JStr ''Session not found'')]))
                 (writeHead 404 [(''Content-Type'', ''application/json'')] res)))"
  by (simp add: handlePost_def)

lemma handlePost_raises:
  "requestBody req = Parsed request \<Longrightarrow>
   getOrCreateSession now uuid (mcp_session_id req) st = (st1, Some (sid, s)) \<Longrightarrow>
   processRequest this request = Inl e \<Longrightarrow>
   handlePost this now uuid req res st = (st1, Inl e)"
  by (simp add: handlePost_def)

lemma handlePost_stream:
  "requestBody req = Parsed request \<Longrightarrow>
   getOrCreateSession now uuid (mcp_session_id req) st = (st1, Some (sid, s)) \<Longrightarrow>
   processRequest this request = Inr response \<Longrightarrow>
   wantsEventStream req \<Longrightarrow>
   handlePost this now uuid req res st =
     (st1(sid \<mapsto> s\<lparr>lastEventId := lastEventId s + 1\<rparr>),
      Inr (endResponse (writeFrame (lastEventId s + 1) response
             (writeHead 200 [(''Content-Type'', ''text/event-stream''),
                             (''Cache-Control'', ''no-cache''),
                             (''Connection'', ''keep-alive'')]
                (setHeader ''Mcp-Session-Id'' sid res)))))"
  by (simp add: handlePost_def wantsEventStream_def Let_def)

lemma handlePost_direct:
  "requestBody req = Parsed request \<Longrightarrow>
   getOrCreateSession now uuid (mcp_session_id req) st = (st1, Some (sid, s)) \<Longrightarrow>
   processRequest this request = Inr response \<Longrightarrow>
   \<not> wantsEventStream req \<Longrightarrow>
   handlePost this now uuid req res st =
     (st1, Inr (endWith (stringify (responseJson response))
                 (writeHead 200 [(''Content-Type'', ''application/json'')]
                    (setHeader ''Mcp-Session-Id'' sid res))))"
  by (simp add: handlePost_def wantsEventStream_def)

lemma processRequest_null:
  "processRequest this JNull = Inl (JsError ''Cannot destructure property of null'')"
  by (simp add: processRequest_def)

lemma processRequest_returns:
  "request \<noteq> JNull \<Longrightarrow>
   \<exists>response. processRequest this request = Inr response \<and> id_rpc response = getProp request ''id''"
  by (auto simp add: processRequest_def Let_def
           split: option.splits sum.splits)

lemma handlePost_status:
  "statusOf (snd (handlePost this now uuid req (corsHeaders newResponse) st)) \<in> {None, Some 200, Some 400, Some 404}"
proof (cases "requestBody req")
  case (Rejected e)
  then show ?thesis by (simp add: handlePost_rejected)
next
  case Malformed
  then show ?thesis by (simp add: handlePost_malformed)
next
  case (Parsed request)
  show ?thesis
  proof (cases "getOrCreateSession now uuid (mcp_session_id req) st")
    case (Pair st1 found)
    show ?thesis
    proof (cases found)
      case None
      with Parsed Pair show ?thesis by (simp add: handlePost_no_session)
    next
      case (Some p)
      obtain sid s where p: "p = (sid, s)" by (cases p)
      show ?thesis
      proof (cases "processRequest this request")
        case (Inl e)
        with Parsed Pair Some p show ?thesis by (simp add: handlePost_raises)
      next
        case (Inr response)
        with Parsed Pair Some p show ?thesis
          by (cases "wantsEventStream req") (simp_all add: handlePost_stream handlePost_direct)
      qed
    qed
  qed
qed

lemma includes_str_self: "includes_str m m"
  by (cases m) simp_all

lemma includes_str_suffix: "includes_str (p @ m) m"
  by (induction p) (simp_all add: includes_str_self)

lemma getProp_not_null: "getProp request k = Some v \<Longrightarrow> request \<noteq> JNull"
  by (cases request) simp_all

subsection \<open>Isolation\<close>

lemma getSession_other: "k \<noteq> sid \<Longrightarrow> fst (getSession now sid st) k = st k"
  by (simp add: getSession_def split: option.splits)

lemma getSession_found: "getSession now sid st = (st1, Some s) \<Longrightarrow> st1 = st \<and> st sid = Some s"
  by (auto simp add: getSession_def split: option.splits if_splits)

lemma getOrCreateSession_other:
  "header \<noteq> Some k \<Longrightarrow> k \<noteq> uuid \<Longrightarrow> fst (getOrCreateSession now uuid header st) k = st k"
  by (auto simp add: getOrCreateSession_def createSession_def getSession_def Let_def
           split: option.splits)

lemma getOrCreateSession_key:
  "getOrCreateSession now uuid header st = (st1, Some (sid, s)) \<Longrightarrow>
   (sid = uuid \<or> header = Some sid) \<and> st1 sid = Some s"
  by (auto simp add: getOrCreateSession_def createSession_def getSession_def Let_def
           split: option.splits if_splits)

lemma handlePost_other:
  assumes "mcp_session_id req \<noteq> Some k" and "k \<noteq> uuid"
  shows "fst (handlePost this now uuid req res st) k = st k"
proof (cases "requestBody req")
  case (Rejected e)
  then show ?thesis by (simp add: handlePost_rejected)
next
  case Malformed
  then show ?thesis by (simp add: handlePost_malformed)
next
  case (Parsed request)
  obtain st1 found where g: "getOrCreateSession now uuid (mcp_session_id req) st = (st1, found)"
    by (cases "getOrCreateSession now uuid (mcp_session_id req) st")
  have st1: "st1 k = st k"
    using getOrCreateSession_other[OF assms, of now st] g by simp
  show ?thesis
  proof (cases found)
    case None
    with Parsed g st1 show ?thesis by (simp add: handlePost_no_session)
  next
    case (Some p)
    obtain sid s where p: "p = (sid, s)" by (cases p)
    have key: "sid \<noteq> k"
      using getOrCreateSession_key[of now uuid "mcp_session_id req" st st1 sid s] g Some p assms
      by auto
    show ?thesis
    proof (cases "processRequest this request")
      case (Inl e)
      with Parsed g Some p st1 show ?thesis by (simp add: handlePost_raises)
    next
      case (Inr response)
      with Parsed g Some p st1 key show ?thesis
        by (cases "wantsEventStream req") (simp_all add: handlePost_stream handlePost_direct)
    qed
  qed
qed

lemma handleGet_other:
  "mcp_session_id req \<noteq> Some k \<Longrightarrow> fst (handleGet now req res st) k = st k"
  by (auto simp add: handleGet_def getSession_def Let_def split: option.splits)

lemma handleDelete_other:
  "mcp_session_id req \<noteq> Some k \<Longrightarrow> fst (handleDelete req res st) k = st k"
  by (auto simp add: handleDelete_def split: option.splits)

lemma handleGet_status:
  "statusCode (snd (handleGet now req (corsHeaders newResponse) st)) \<in> {200, 400, 404}"
  by (auto simp add: handleGet_def getSession_def Let_def split: option.splits)

lemma handleDelete_status:
  "statusCode (snd (handleDelete req (corsHeaders newResponse) st)) = 204"
  by (auto simp add: handleDelete_def split: option.splits)

lemma handleRequest_other:
  assumes "mcp_session_id req \<noteq> Some k" and "k \<noteq> uuid"
  shows "fst (handleRequest this now uuid req st) k = st k"
  using handlePost_other[OF assms] handleGet_other[OF assms(1)] handleDelete_other[OF assms(1)]
  by (simp add: handleRequest_def Let_def case_prod_beta split: option.splits)

lemma handleRequest_status:
  "statusOf (snd (handleRequest this now uuid req st))
     \<in> {None, Some 200, Some 204, Some 400, Some 404, Some 405}"
proof (cases "pathname req")
  case None
  then show ?thesis by (simp add: handleRequest_invalid_url)
next
  case (Some path)
  have post: "statusOf (snd (handlePost this now uuid req (corsHeaders newResponse) st))
     \<in> {None, Some 200, Some 204, Some 400, Some 404, Some 405}"
    using handlePost_status[of this now uuid req st] by auto
  have get: "statusCode (snd (handleGet now req (corsHeaders newResponse) st)) \<in> {200, 204, 400, 404, 405}"
    using handleGet_status[of now req st] by auto
  show ?thesis
    using Some post get handleDelete_status[of req st]
    by (simp add: handleRequest_def Let_def case_prod_beta)
qed


subsection \<open>Dispatch of \<open>tools/call\<close> (C5)\<close>

text \<open>
  C5, as the claim states it, fails when the tool executor throws a value that is not an
  \<open>Error\<close>: the \<open>catch\<close> clause reads \<open>message\<close> only from instances of \<open>Error\<close>, and the
  answer carries "Unknown error" instead of what was thrown.
\<close>

theorem non_error_throw_counterexample:
  "toolExecutor throwingTransport (JStr ''search'') (JObj []) = Inl (NonError (JStr ''boom''))
   \<and> processRequest throwingTransport
        (JObj [(''id'', JNum ''7''), (''method'', JStr ''tools/call''),
               (''params'', JObj [(''name'', JStr ''search'')])])
     = Inr \<lparr>id_rpc = Some (JNum ''7''), result = None,
            error = Some (- 32000, ''Unknown error'')\<rparr>"
  by (simp add: throwingTransport_def processRequest_def)

text \<open>
  C5, amended. Dispatch of \<open>tools/call\<close>. When \<open>params.name\<close> is missing or falsy the
  answer is the error \<open>-32000\<close> "Tool name required". When the tool executor throws an
  \<open>Error\<close> with message \<open>m\<close>, the exception is caught and the answer is the error \<open>-32000\<close>
  with message \<open>m\<close>; when it throws any other value the answer is the error \<open>-32000\<close> with
  message "Unknown error". When the executor returns \<open>v\<close>, the result is one content block of
  type text holding \<open>JSON.stringify(v)\<close>. In every one of these cases the HTTP status of the
  POST that carried the request is 200.
\<close>

theorem tools_call_dispatch:
  assumes "getProp request ''method'' = Some (JStr ''tools/call'')"
  shows "(optProp (getProp request ''params'') ''name'' = None \<longrightarrow>
            processRequest this request =
              Inr \<lparr>id_rpc = getProp request ''id'', result = None,
                   error = Some (- 32000, ''Tool name required'')\<rparr>)
       \<and> (optProp (getProp request ''params'') ''name'' = Some name \<and> \<not> truthy name \<longrightarrow>
            processRequest this request =
              Inr \<lparr>id_rpc = getProp request ''id'', result = None,
                   error = Some (- 32000, ''Tool name required'')\<rparr>)
       \<and> (optProp (getProp request ''params'') ''name'' = Some name \<and> truthy name
              \<and> toolExecutor this name (callArguments (getProp request ''params''))
                  = Inl (JsError m) \<longrightarrow>
            processRequest this request =
              Inr \<lparr>id_rpc = getProp request ''id'', result = None,
                   error = Some (- 32000, m)\<rparr>)
       \<and> (optProp (getProp request ''params'') ''name'' = Some name \<and> truthy name
              \<and> toolExecutor this name (callArguments (getProp request ''params''))
                  = Inl (NonError thrown) \<longrightarrow>
            processRequest this request =
              Inr \<lparr>id_rpc = getProp request ''id'', result = None,
                   error = Some (- 32000, ''Unknown error'')\<rparr>)
       \<and> (optProp (getProp request ''params'') ''name'' = Some name \<and> truthy name
              \<and> toolExecutor this name (callArguments (getProp request ''params'')) = Inr v \<longrightarrow>
            processRequest this request =
              Inr \<lparr>id_rpc = getProp request ''id'',
                   result = Some (JObj [(''content'', JArr [JObj [(''type'', JStr ''text''),
                                                    (''text'', JStr (stringify v))]])]),
                   error = None\<rparr>)
       \<and> (pathname req = Some path \<and> (path = ''/mcp'' \<or> path = ''/'')
              \<and> httpMethod req = ''POST'' \<and> requestBody req = Parsed request
              \<and> getOrCreateSession now uuid (mcp_session_id req) st = (st1, Some found) \<longrightarrow>
            statusOf (snd (handleRequest this now uuid req st)) = Some 200)"
proof -
  have nn: "request \<noteq> JNull"
    using assms by (rule getProp_not_null)
  have status: "statusOf (snd (handleRequest this now uuid req st)) = Some 200"
    if "pathname req = Some path" "path = ''/mcp'' \<or> path = ''/''" "httpMethod req = ''POST''"
       "requestBody req = Parsed request"
       "getOrCreateSession now uuid (mcp_session_id req) st = (st1, Some found)"
  proof -
    obtain sid s where f: "found = (sid, s)" by (cases found)
    obtain response where r: "processRequest this request = Inr response"
      using processRequest_returns[OF nn] by blast
    show ?thesis
      using that f r
      by (cases "wantsEventStream req")
         (simp_all add: handleRequest_post handlePost_stream handlePost_direct)
  qed
  show ?thesis
    using assms nn status
    by (simp add: processRequest_def callArguments_def)
qed

theorem tools_call_dispatch_witness:
  "processRequest exampleTransport (JObj [(''id'', JNum ''7''), (''method'', JStr ''tools/call'')])
     = Inr \<lparr>id_rpc = Some (JNum ''7''), result = None,
            error = Some (- 32000, ''Tool name required'')\<rparr>
   \<and> processRequest exampleTransport
        (JObj [(''method'', JStr ''tools/call''), (''params'', JObj [(''name'', JStr [])])])
     = Inr \<lparr>id_rpc = None, result = None, error = Some (- 32000, ''Tool name required'')\<rparr>
   \<and> processRequest exampleTransport
        (JObj [(''method'', JStr ''tools/call''),
               (''params'', JObj [(''name'', JStr ''missing_tool'')])])
     = Inr \<lparr>id_rpc = None, result = None, error = Some (- 32000, ''not found'')\<rparr>
   \<and> processRequest throwingTransport
        (JObj [(''method'', JStr ''tools/call''),
               (''params'', JObj [(''name'', JStr ''missing_tool'')])])
     = Inr \<lparr>id_rpc = None, result = None, error = Some (- 32000, ''Unknown error'')\<rparr>
   \<and> processRequest exampleTransport
        (JObj [(''method'', JStr ''tools/call''),
               (''params'', JObj [(''name'', JStr ''echo''),
                                  (''arguments'', JArr [JNum ''1'', JNum ''0.5''])])])
     = Inr \<lparr>id_rpc = None,
            result = Some (JObj [(''content'', JArr [JObj [(''type'', JStr ''text''),
                                                          (''text'', JStr ''[1,0.5]'')]])]),
            error = None\<rparr>
   \<and> statusOf (snd (handleRequest exampleTransport 0 ''u1''
        (exampleMessage ''POST'' ''/mcp'' None None
           (Parsed (JObj [(''method'', JStr ''tools/call''),
                          (''params'', JObj [(''name'', JStr ''missing_tool'')])])))
        Map.empty)) = Some 200"
proof (intro conjI)
  show "processRequest exampleTransport (JObj [(''id'', JNum ''7''), (''method'', JStr ''tools/call'')])
     = Inr \<lparr>id_rpc = Some (JNum ''7''), result = None,
            error = Some (- 32000, ''Tool name required'')\<rparr>"
    using tools_call_dispatch
      [where request = "JObj [(''id'', JNum ''7''), (''method'', JStr ''tools/call'')]"
         and this = exampleTransport]
    by simp
  show "processRequest exampleTransport
        (JObj [(''method'', JStr ''tools/call''), (''params'', JObj [(''name'', JStr [])])])
     = Inr \<lparr>id_rpc = None, result = None, error = Some (- 32000, ''Tool name required'')\<rparr>"
    using tools_call_dispatch
      [where request = "JObj [(''method'', JStr ''tools/call''),
                              (''params'', JObj [(''name'', JStr [])])]"
         and this = exampleTransport and name = "JStr []"]
    by simp
  show "processRequest exampleTransport
        (JObj [(''method'', JStr ''tools/call''),
               (''params'', JObj [(''name'', JStr ''missing_tool'')])])
     = Inr \<lparr>id_rpc = None, result = None, error = Some (- 32000, ''not found'')\<rparr>"
    using tools_call_dispatch
      [where request = "JObj [(''method'', JStr ''tools/call''),
                              (''params'', JObj [(''name'', JStr ''missing_tool'')])]"
         and this = exampleTransport and name = "JStr ''missing_tool''" and m = "''not found''"]
    by (simp add: exampleTransport_def)
  show "processRequest throwingTransport
        (JObj [(''method'', JStr ''tools/call''),
               (''params'', JObj [(''name'', JStr ''missing_tool'')])])
     = Inr \<lparr>id_rpc = None, result = None, error = Some (- 32000, ''Unknown error'')\<rparr>"
    using tools_call_dispatch
      [where request = "JObj [(''method'', JStr ''tools/call''),
                              (''params'', JObj [(''name'', JStr ''missing_tool'')])]"
         and this = throwingTransport and name = "JStr ''missing_tool''"
         and thrown = "JStr ''boom''"]
    by (simp add: throwingTransport_def)
  show "processRequest exampleTransport
        (JObj [(''method'', JStr ''tools/call''),
               (''params'', JObj [(''name'', JStr ''echo''),
                                  (''arguments'', JArr [JNum ''1'', JNum ''0.5''])])])
     = Inr \<lparr>id_rpc = None,
            result = Some (JObj [(''content'', JArr [JObj [(''type'', JStr ''text''),
                                                          (''text'', JStr ''[1,0.5]'')]])]),
            error = None\<rparr>"
    using tools_call_dispatch
      [where request = "JObj [(''method'', JStr ''tools/call''),
               (''params'', JObj [(''name'', JStr ''echo''),
                                  (''arguments'', JArr [JNum ''1'', JNum ''0.5''])])]"
         and this = exampleTransport and name = "JStr ''echo''"
         and v = "JArr [JNum ''1'', JNum ''0.5'']"]
    by (simp add: exampleTransport_def callArguments_def)
  show "statusOf (snd (handleRequest exampleTransport 0 ''u1''
        (exampleMessage ''POST'' ''/mcp'' None None
           (Parsed (JObj [(''method'', JStr ''tools/call''),
                          (''params'', JObj [(''name'', JStr ''missing_tool'')])])))
        Map.empty)) = Some 200"
    using tools_call_dispatch
      [where request = "JObj [(''method'', JStr ''tools/call''),
                              (''params'', JObj [(''name'', JStr ''missing_tool'')])]"
         and this = exampleTransport and path = "''/mcp''" and now = 0 and uuid = "''u1''"
         and st = Map.empty
         and req = "exampleMessage ''POST'' ''/mcp'' None None
           (Parsed (JObj [(''method'', JStr ''tools/call''),
                          (''params'', JObj [(''name'', JStr ''missing_tool'')])]))"]
      getOrCreateSession_create [of None 0 "''u1''" Map.empty]
    by (simp add: exampleMessage_def)
qed

subsection \<open>Unknown methods and the echoed id (C6)\<close>

text \<open>
  C6, as the claim states it, fails on a request whose method is an object with a member
  named \<open>toString\<close>: the method is none of the four names, but printing it into the message
  throws inside the \<open>try\<close>, and the answer is the error \<open>-32000\<close>, not \<open>-32601\<close>.
\<close>

theorem unprintable_method_counterexample:
  "JObj [(''toString'', JNum ''1'')]
     \<notin> {JStr ''initialize'', JStr ''tools/list'', JStr ''tools/call'', JStr ''ping''}
   \<and> processRequest exampleTransport
        (JObj [(''id'', JNum ''1''), (''method'', JObj [(''toString'', JNum ''1'')])])
     = Inr \<lparr>id_rpc = Some (JNum ''1''), result = None,
            error = Some (- 32000, ''Cannot convert object to primitive value'')\<rparr>"
  by (simp add: processRequest_def)

text \<open>
  C6, amended. The JSON value \<open>null\<close> is not answered: destructuring it throws. Every other
  parsed body is dispatched, and the id of the response is the id of the request, absent when
  that is absent. A request whose method is a string other than \<open>initialize\<close>,
  \<open>tools/list\<close>, \<open>tools/call\<close> and \<open>ping\<close> is answered with the error \<open>-32601\<close> whose message
  contains the method; so is a request without a method, with the name \<open>undefined\<close>, and a
  request whose method is any other value that a template literal can print. A request whose
  method cannot be printed is answered with the error \<open>-32000\<close>.
\<close>

theorem unknown_method_and_id_echo:
  "processRequest this JNull = Inl (JsError ''Cannot destructure property of null'')
   \<and> (request \<noteq> JNull \<longrightarrow>
        (\<exists>response. processRequest this request = Inr response
           \<and> id_rpc response = getProp request ''id''))
   \<and> (getProp request ''method'' = Some (JStr m)
        \<and> m \<notin> {''initialize'', ''tools/list'', ''tools/call'', ''ping''} \<longrightarrow>
      processRequest this request =
        Inr \<lparr>id_rpc = getProp request ''id'', result = None,
             error = Some (- 32601, ''Method not found: '' @ m)\<rparr>
      \<and> includes_str (''Method not found: '' @ m) m)
   \<and> (request \<noteq> JNull \<and> getProp request ''method'' = None \<longrightarrow>
      processRequest this request =
        Inr \<lparr>id_rpc = getProp request ''id'', result = None,
             error = Some (- 32601, ''Method not found: undefined'')\<rparr>)
   \<and> (getProp request ''method'' = Some v
        \<and> v \<notin> {JStr ''initialize'', JStr ''tools/list'', JStr ''tools/call'', JStr ''ping''}
        \<and> toString v = Some name \<longrightarrow>
      processRequest this request =
        Inr \<lparr>id_rpc = getProp request ''id'', result = None,
             error = Some (- 32601, ''Method not found: '' @ name)\<rparr>)
   \<and> (getProp request ''method'' = Some v \<and> toString v = None \<longrightarrow>
      processRequest this request =
        Inr \<lparr>id_rpc = getProp request ''id'', result = None,
             error = Some (- 32000, ''Cannot convert object to primitive value'')\<rparr>)"
proof (intro conjI impI)
  show "processRequest this JNull = Inl (JsError ''Cannot destructure property of null'')"
    by (rule processRequest_null)
next
  assume "request \<noteq> JNull"
  then show "\<exists>response. processRequest this request = Inr response
           \<and> id_rpc response = getProp request ''id''"
    by (rule processRequest_returns)
next
  assume a: "getProp request ''method'' = Some (JStr m)
        \<and> m \<notin> {''initialize'', ''tools/list'', ''tools/call'', ''ping''}"
  then have "request \<noteq> JNull"
    using getProp_not_null by blast
  with a show "processRequest this request =
        Inr \<lparr>id_rpc = getProp request ''id'', result = None,
             error = Some (- 32601, ''Method not found: '' @ m)\<rparr>"
    by (simp add: processRequest_def)
  show "includes_str (''Method not found: '' @ m) m"
    by (rule includes_str_suffix)
next
  assume "request \<noteq> JNull \<and> getProp request ''method'' = None"
  then show "processRequest this request =
        Inr \<lparr>id_rpc = getProp request ''id'', result = None,
             error = Some (- 32601, ''Method not found: undefined'')\<rparr>"
    by (simp add: processRequest_def)
next
  assume a: "getProp request ''method'' = Some v
        \<and> v \<notin> {JStr ''initialize'', JStr ''tools/list'', JStr ''tools/call'', JStr ''ping''}
        \<and> toString v = Some name"
  then have "request \<noteq> JNull"
    using getProp_not_null by blast
  with a show "processRequest this request =
        Inr \<lparr>id_rpc = getProp request ''id'', result = None,
             error = Some (- 32601, ''Method not found: '' @ name)\<rparr>"
    by (simp add: processRequest_def)
next
  assume a: "getProp request ''method'' = Some v \<and> toString v = None"
  then have "request \<noteq> JNull"
    using getProp_not_null by blast
  moreover have "v \<notin> {JStr ''initialize'', JStr ''tools/list'', JStr ''tools/call'', JStr ''ping''}"
    using a by auto
  ultimately show "processRequest this request =
        Inr \<lparr>id_rpc = getProp request ''id'', result = None,
             error = Some (- 32000, ''Cannot convert object to primitive value'')\<rparr>"
    using a by (simp add: processRequest_def)
qed

theorem unknown_method_and_id_echo_witness:
  "processRequest exampleTransport (JObj [(''id'', JStr ''a''), (''method'', JStr ''frobnicate'')])
     = Inr \<lparr>id_rpc = Some (JStr ''a''), result = None,
            error = Some (- 32601, ''Method not found: frobnicate'')\<rparr>
   \<and> processRequest exampleTransport (JObj [(''jsonrpc'', JStr ''2.0'')])
     = Inr \<lparr>id_rpc = None, result = None,
            error = Some (- 32601, ''Method not found: undefined'')\<rparr>
   \<and> processRequest exampleTransport (JObj [(''method'', JArr [JNum ''1e+21'', JNull, JBool True])])
     = Inr \<lparr>id_rpc = None, result = None,
            error = Some (- 32601, ''Method not found: 1e+21,,true'')\<rparr>
   \<and> processRequest exampleTransport
        (JObj [(''id'', JNum ''2''), (''method'', JArr [JObj [(''toString'', JNull)]])])
     = Inr \<lparr>id_rpc = Some (JNum ''2''), result = None,
            error = Some (- 32000, ''Cannot convert object to primitive value'')\<rparr>
   \<and> (\<exists>response. processRequest exampleTransport pingRequest = Inr response
         \<and> id_rpc response = Some (JNum ''1''))"
proof (intro conjI)
  note t = unknown_method_and_id_echo [where this = exampleTransport]
  show "processRequest exampleTransport (JObj [(''id'', JStr ''a''), (''method'', JStr ''frobnicate'')])
     = Inr \<lparr>id_rpc = Some (JStr ''a''), result = None,
            error = Some (- 32601, ''Method not found: frobnicate'')\<rparr>"
    using t [where request = "JObj [(''id'', JStr ''a''), (''method'', JStr ''frobnicate'')]"
               and m = "''frobnicate''"]
    by simp
  show "processRequest exampleTransport (JObj [(''jsonrpc'', JStr ''2.0'')])
     = Inr \<lparr>id_rpc = None, result = None,
            error = Some (- 32601, ''Method not found: undefined'')\<rparr>"
    using t [where request = "JObj [(''jsonrpc'', JStr ''2.0'')]"]
    by simp
  show "processRequest exampleTransport (JObj [(''method'', JArr [JNum ''1e+21'', JNull, JBool True])])
     = Inr \<lparr>id_rpc = None, result = None,
            error = Some (- 32601, ''Method not found: 1e+21,,true'')\<rparr>"
    using t [where request = "JObj [(''method'', JArr [JNum ''1e+21'', JNull, JBool True])]"
               and v = "JArr [JNum ''1e+21'', JNull, JBool True]" and name = "''1e+21,,true''"]
    by simp
  show "processRequest exampleTransport
        (JObj [(''id'', JNum ''2''), (''method'', JArr [JObj [(''toString'', JNull)]])])
     = Inr \<lparr>id_rpc = Some (JNum ''2''), result = None,
            error = Some (- 32000, ''Cannot convert object to primitive value'')\<rparr>"
    using t [where request = "JObj [(''id'', JNum ''2''),
                                    (''method'', JArr [JObj [(''toString'', JNull)]])]"
               and v = "JArr [JObj [(''toString'', JNull)]]"]
    by simp
  show "\<exists>response. processRequest exampleTransport pingRequest = Inr response
         \<and> id_rpc response = Some (JNum ''1'')"
    using t [where request = pingRequest]
    by (simp add: pingRequest_def)
qed

subsection \<open>Routing (C9)\<close>

text \<open>
  C9, as the claim states it, fails on the path \<open>/\<close>: the router treats it as \<open>/mcp\<close>, so a
  POST to \<open>/\<close> is dispatched and answered 200 where the claim promises 404.
\<close>

theorem root_path_is_routed_counterexample:
  "pathname (exampleMessage ''POST'' ''/'' None None (Parsed pingRequest)) = Some ''/''
   \<and> ''/'' \<notin> {''/mcp'', ''/health''}
   \<and> statusOf (snd (handleRequest exampleTransport 0 ''u1''
         (exampleMessage ''POST'' ''/'' None None (Parsed pingRequest)) Map.empty)) = Some 200"
  by (simp add: exampleMessage_def pingRequest_def handleRequest_def handlePost_def
        getOrCreateSession_def createSession_def processRequest_def Let_def corsHeaders_def)

text \<open>
  C9, amended. With a path name \<open>path\<close> computed from the request target: OPTIONS is
  answered 204 on every path; on \<open>/mcp\<close> and on \<open>/\<close>, POST, GET and DELETE go to their
  handlers and every other method is answered 405; on \<open>/health\<close> every method other than
  OPTIONS gets the liveness answer, status 200; on every other path every method other than
  OPTIONS is answered 404. The last three leave the store as it is.
\<close>

theorem router_table:
  assumes "pathname req = Some path"
  shows "(httpMethod req = ''OPTIONS'' \<longrightarrow>
            handleRequest this now uuid req st =
              (st, Inr (endResponse (writeHead 204 [] (corsHeaders newResponse)))))
       \<and> (httpMethod req = ''POST'' \<and> (path = ''/mcp'' \<or> path = ''/'') \<longrightarrow>
            handleRequest this now uuid req st =
              handlePost this now uuid req (corsHeaders newResponse) st)
       \<and> (httpMethod req = ''GET'' \<and> (path = ''/mcp'' \<or> path = ''/'') \<longrightarrow>
            handleRequest this now uuid req st =
              (fst (handleGet now req (corsHeaders newResponse) st),
               Inr (snd (handleGet now req (corsHeaders newResponse) st))))
       \<and> (httpMethod req = ''DELETE'' \<and> (path = ''/mcp'' \<or> path = ''/'') \<longrightarrow>
            handleRequest this now uuid req st =
              (fst (handleDelete req (corsHeaders newResponse) st),
               Inr (snd (handleDelete req (corsHeaders newResponse) st))))
       \<and> (httpMethod req \<notin> {''OPTIONS'', ''POST'', ''GET'', ''DELETE''}
              \<and> (path = ''/mcp'' \<or> path = ''/'') \<longrightarrow>
            fst (handleRequest this now uuid req st) = st
            \<and> statusOf (snd (handleRequest this now uuid req st)) = Some 405)
       \<and> (httpMethod req \<noteq> ''OPTIONS'' \<and> path = ''/health'' \<longrightarrow>
            handleRequest this now uuid req st =
              (st, Inr (endWith
                          (stringify (JObj [(''status'', JStr ''ok''),
                                            (''server'', JStr (serverName this)),
                                            (''version'', JStr (serverVersion this))]))
                          (writeHead 200 [(''Content-Type'', ''application/json'')]
                             (corsHeaders newResponse)))))
       \<and> (httpMethod req \<noteq> ''OPTIONS'' \<and> path \<notin> {''/mcp'', ''/'', ''/health''} \<longrightarrow>
            fst (handleRequest this now uuid req st) = st
            \<and> statusOf (snd (handleRequest this now uuid req st)) = Some 404)"
  using assms
  by (simp add: handleRequest_def Let_def case_prod_beta)

theorem router_table_witness:
  "statusOf (snd (handleRequest exampleTransport 0 ''u1''
      (exampleMessage ''OPTIONS'' ''/anywhere'' None None Malformed) Map.empty)) = Some 204
   \<and> handleRequest exampleTransport 0 ''u1''
        (exampleMessage ''POST'' ''/mcp'' None None (Parsed pingRequest)) Map.empty
      = handlePost exampleTransport 0 ''u1''
          (exampleMessage ''POST'' ''/mcp'' None None (Parsed pingRequest))
          (corsHeaders newResponse) Map.empty
   \<and> statusOf (snd (handleRequest exampleTransport 0 ''u1''
        (exampleMessage ''GET'' ''/'' None None Malformed) Map.empty)) = Some 400
   \<and> statusOf (snd (handleRequest exampleTransport 0 ''u1''
        (exampleMessage ''DELETE'' ''/mcp'' None None Malformed) Map.empty)) = Some 204
   \<and> statusOf (snd (handleRequest exampleTransport 0 ''u1''
        (exampleMessage ''PUT'' ''/mcp'' None None Malformed) Map.empty)) = Some 405
   \<and> statusOf (snd (handleRequest exampleTransport 0 ''u1''
        (exampleMessage ''POST'' ''/health'' None None Malformed) Map.empty)) = Some 200
   \<and> statusOf (snd (handleRequest exampleTransport 0 ''u1''
        (exampleMessage ''GET'' ''/mcp/'' None None Malformed) Map.empty)) = Some 404"
proof (intro conjI)
  note t = router_table [where this = exampleTransport and now = 0 and uuid = "''u1''"
                           and st = Map.empty]
  show "statusOf (snd (handleRequest exampleTransport 0 ''u1''
      (exampleMessage ''OPTIONS'' ''/anywhere'' None None Malformed) Map.empty)) = Some 204"
    using t [where req = "exampleMessage ''OPTIONS'' ''/anywhere'' None None Malformed"
               and path = "''/anywhere''"]
    by (simp add: exampleMessage_def)
  show "handleRequest exampleTransport 0 ''u1''
        (exampleMessage ''POST'' ''/mcp'' None None (Parsed pingRequest)) Map.empty
      = handlePost exampleTransport 0 ''u1''
          (exampleMessage ''POST'' ''/mcp'' None None (Parsed pingRequest))
          (corsHeaders newResponse) Map.empty"
    using t [where req = "exampleMessage ''POST'' ''/mcp'' None None (Parsed pingRequest)"
               and path = "''/mcp''"]
    by (simp add: exampleMessage_def)
  show "statusOf (snd (handleRequest exampleTransport 0 ''u1''
        (exampleMessage ''GET'' ''/'' None None Malformed) Map.empty)) = Some 400"
    using t [where req = "exampleMessage ''GET'' ''/'' None None Malformed" and path = "''/''"]
    by (simp add: exampleMessage_def handleGet_def)
  show "statusOf (snd (handleRequest exampleTransport 0 ''u1''
        (exampleMessage ''DELETE'' ''/mcp'' None None Malformed) Map.empty)) = Some 204"
    using t [where req = "exampleMessage ''DELETE'' ''/mcp'' None None Malformed"
               and path = "''/mcp''"]
    by (simp add: exampleMessage_def handleDelete_def)
  show "statusOf (snd (handleRequest exampleTransport 0 ''u1''
        (exampleMessage ''PUT'' ''/mcp'' None None Malformed) Map.empty)) = Some 405"
    using t [where req = "exampleMessage ''PUT'' ''/mcp'' None None Malformed"
               and path = "''/mcp''"]
    by (simp add: exampleMessage_def)
  show "statusOf (snd (handleRequest exampleTransport 0 ''u1''
        (exampleMessage ''POST'' ''/health'' None None Malformed) Map.empty)) = Some 200"
    using t [where req = "exampleMessage ''POST'' ''/health'' None None Malformed"
               and path = "''/health''"]
    by (simp add: exampleMessage_def)
  show "statusOf (snd (handleRequest exampleTransport 0 ''u1''
        (exampleMessage ''GET'' ''/mcp/'' None None Malformed) Map.empty)) = Some 404"
    using t [where req = "exampleMessage ''GET'' ''/mcp/'' None None Malformed"
               and path = "''/mcp/''"]
    by (simp add: exampleMessage_def)
qed

subsection \<open>Exceptions and isolation (C2)\<close>

text \<open>
  C2, as the claim states it, fails: a POST whose body is the JSON text \<open>null\<close> makes
  \<open>processRequest\<close> throw while destructuring, outside its \<open>try\<close>; nothing catches the
  \<open>TypeError\<close>, it leaves \<open>handleRequest\<close>, and no response with status 500 is written.
\<close>

theorem null_body_escapes_counterexample:
  "snd (handleRequest exampleTransport 0 ''u1''
         (exampleMessage ''POST'' ''/mcp'' None None (Parsed JNull)) Map.empty)
     = Inl (JsError ''Cannot destructure property of null'')
   \<and> statusOf (snd (handleRequest exampleTransport 0 ''u1''
         (exampleMessage ''POST'' ''/mcp'' None None (Parsed JNull)) Map.empty)) \<noteq> Some 500"
  by (simp add: exampleMessage_def handleRequest_def handlePost_def
        getOrCreateSession_def createSession_def processRequest_def Let_def)

text \<open>
  C2, amended. An exception raised while a request is handled is not caught by the router:
  when \<open>new URL\<close> throws, when reading the body of a POST fails, and when the body of a POST
  is \<open>null\<close> and a session was found or created, the exception leaves \<open>handleRequest\<close>. No
  response with status 500 is ever produced. Whether the request is answered or an exception
  escapes, the state of every session other than the one named by the \<open>Mcp-Session-Id\<close>
  header of the request and the one the request creates is left unchanged.
\<close>

theorem exceptions_escape_sessions_isolated:
  "(pathname req = None \<longrightarrow>
      handleRequest this now uuid req st = (st, Inl (JsError ''Invalid URL'')))
   \<and> (pathname req = Some path \<and> (path = ''/mcp'' \<or> path = ''/'') \<and> httpMethod req = ''POST''
        \<and> requestBody req = Rejected e \<longrightarrow>
      handleRequest this now uuid req st = (st, Inl e))
   \<and> (pathname req = Some path \<and> (path = ''/mcp'' \<or> path = ''/'') \<and> httpMethod req = ''POST''
        \<and> requestBody req = Parsed JNull
        \<and> getOrCreateSession now uuid (mcp_session_id req) st = (st1, Some found) \<longrightarrow>
      handleRequest this now uuid req st =
        (st1, Inl (JsError ''Cannot destructure property of null'')))
   \<and> statusOf (snd (handleRequest this now uuid req st)) \<noteq> Some 500
   \<and> (mcp_session_id req \<noteq> Some k \<and> k \<noteq> uuid \<longrightarrow>
        fst (handleRequest this now uuid req st) k = st k)"
proof (intro conjI impI)
  assume "pathname req = None"
  then show "handleRequest this now uuid req st = (st, Inl (JsError ''Invalid URL''))"
    by (rule handleRequest_invalid_url)
next
  assume "pathname req = Some path \<and> (path = ''/mcp'' \<or> path = ''/'') \<and> httpMethod req = ''POST''
        \<and> requestBody req = Rejected e"
  then show "handleRequest this now uuid req st = (st, Inl e)"
    by (simp add: handleRequest_post handlePost_rejected)
next
  assume a: "pathname req = Some path \<and> (path = ''/mcp'' \<or> path = ''/'') \<and> httpMethod req = ''POST''
        \<and> requestBody req = Parsed JNull
        \<and> getOrCreateSession now uuid (mcp_session_id req) st = (st1, Some found)"
  obtain sid s where "found = (sid, s)" by (cases found)
  with a show "handleRequest this now uuid req st =
        (st1, Inl (JsError ''Cannot destructure property of null''))"
    by (simp add: handleRequest_post handlePost_raises processRequest_null)
next
  show "statusOf (snd (handleRequest this now uuid req st)) \<noteq> Some 500"
    using handleRequest_status [of this now uuid req st] by auto
next
  assume "mcp_session_id req \<noteq> Some k \<and> k \<noteq> uuid"
  then show "fst (handleRequest this now uuid req st) k = st k"
    by (simp add: handleRequest_other)
qed

theorem exceptions_escape_sessions_isolated_witness:
  "handleRequest exampleTransport 0 ''u1''
      ((exampleMessage ''GET'' ''/mcp'' None None Malformed)\<lparr>pathname := None\<rparr>) Map.empty
     = (Map.empty, Inl (JsError ''Invalid URL''))
   \<and> handleRequest exampleTransport 0 ''u1''
        (exampleMessage ''POST'' ''/mcp'' None None (Rejected (JsError ''aborted''))) Map.empty
     = (Map.empty, Inl (JsError ''aborted''))
   \<and> handleRequest exampleTransport 5 ''u1''
        (exampleMessage ''POST'' ''/mcp'' None None (Parsed JNull)) Map.empty
     = (Map.empty(''u1'' \<mapsto>
          \<lparr>id_session = ''u1'', createdAt = 5, lastEventId = 0, pendingEvents = []\<rparr>),
        Inl (JsError ''Cannot destructure property of null''))
   \<and> fst (handleRequest exampleTransport 5 ''u1''
        (exampleMessage ''POST'' ''/mcp'' None (Some ''text/event-stream'') (Parsed pingRequest))
        (Map.empty(''s0'' \<mapsto>
          \<lparr>id_session = ''s0'', createdAt = 0, lastEventId = 3, pendingEvents = []\<rparr>))) ''s0''
     = Some \<lparr>id_session = ''s0'', createdAt = 0, lastEventId = 3, pendingEvents = []\<rparr>"
proof (intro conjI)
  show "handleRequest exampleTransport 0 ''u1''
      ((exampleMessage ''GET'' ''/mcp'' None None Malformed)\<lparr>pathname := None\<rparr>) Map.empty
     = (Map.empty, Inl (JsError ''Invalid URL''))"
    using exceptions_escape_sessions_isolated
      [where req = "(exampleMessage ''GET'' ''/mcp'' None None Malformed)\<lparr>pathname := None\<rparr>"
         and this = exampleTransport and now = 0 and uuid = "''u1''" and st = Map.empty]
    by simp
  show "handleRequest exampleTransport 0 ''u1''
        (exampleMessage ''POST'' ''/mcp'' None None (Rejected (JsError ''aborted''))) Map.empty
     = (Map.empty, Inl (JsError ''aborted''))"
    using exceptions_escape_sessions_isolated
      [where req = "exampleMessage ''POST'' ''/mcp'' None None (Rejected (JsError ''aborted''))"
         and this = exampleTransport and now = 0 and uuid = "''u1''" and st = Map.empty
         and path = "''/mcp''" and e = "JsError ''aborted''"]
    by (simp add: exampleMessage_def)
  show "handleRequest exampleTransport 5 ''u1''
        (exampleMessage ''POST'' ''/mcp'' None None (Parsed JNull)) Map.empty
     = (Map.empty(''u1'' \<mapsto>
          \<lparr>id_session = ''u1'', createdAt = 5, lastEventId = 0, pendingEvents = []\<rparr>),
        Inl (JsError ''Cannot destructure property of null''))"
    using exceptions_escape_sessions_isolated
      [where req = "exampleMessage ''POST'' ''/mcp'' None None (Parsed JNull)"
         and this = exampleTransport and now = 5 and uuid = "''u1''" and st = Map.empty
         and path = "''/mcp''"
         and ?st1.0 = "Map.empty(''u1'' \<mapsto>
          \<lparr>id_session = ''u1'', createdAt = 5, lastEventId = 0, pendingEvents = []\<rparr>)"
         and found = "(''u1'',
          \<lparr>id_session = ''u1'', createdAt = 5, lastEventId = 0, pendingEvents = []\<rparr>)"]
      getOrCreateSession_create [of None 5 "''u1''" Map.empty]
    by (simp add: exampleMessage_def)
  show "fst (handleRequest exampleTransport 5 ''u1''
        (exampleMessage ''POST'' ''/mcp'' None (Some ''text/event-stream'') (Parsed pingRequest))
        (Map.empty(''s0'' \<mapsto>
          \<lparr>id_session = ''s0'', createdAt = 0, lastEventId = 3, pendingEvents = []\<rparr>))) ''s0''
     = Some \<lparr>id_session = ''s0'', createdAt = 0, lastEventId = 3, pendingEvents = []\<rparr>"
    using exceptions_escape_sessions_isolated
      [where req = "exampleMessage ''POST'' ''/mcp'' None (Some ''text/event-stream'')
                      (Parsed pingRequest)"
         and this = exampleTransport and now = 5 and uuid = "''u1''" and k = "''s0''"
         and st = "Map.empty(''s0'' \<mapsto>
          \<lparr>id_session = ''s0'', createdAt = 0, lastEventId = 3, pendingEvents = []\<rparr>)"]
    by (simp add: exampleMessage_def)
qed

subsection \<open>What the session block of a POST can return\<close>

lemma getOrCreateSession_none:
  "getOrCreateSession now uuid header st = (st1, None) \<Longrightarrow>
   \<exists>sid. header = Some sid \<and> sid \<noteq> [] \<and> st1 = st(sid := None)
     \<and> (st sid = None \<or> (\<exists>s. st sid = Some s \<and> now - createdAt s > SESSION_TTL_MS))"
  by (auto simp add: getOrCreateSession_def createSession_def getSession_def Let_def
           split: option.splits if_splits)

lemma getOrCreateSession_some:
  "getOrCreateSession now uuid header st = (st1, Some (sid, s)) \<Longrightarrow>
   (header = Some sid \<and> sid \<noteq> [] \<and> st1 = st \<and> st sid = Some s
      \<and> \<not> now - createdAt s > SESSION_TTL_MS)
   \<or> ((header = None \<or> header = Some []) \<and> sid = uuid
      \<and> s = \<lparr>id_session = uuid, createdAt = now, lastEventId = 0, pendingEvents = []\<rparr>
      \<and> st1 = st(uuid \<mapsto> s))"
  by (auto simp add: getOrCreateSession_def createSession_def getSession_def Let_def
           split: option.splits if_splits)

lemma getOrCreateSession_missing:
  "sid \<noteq> [] \<Longrightarrow> st sid = None \<or> (\<exists>s. st sid = Some s \<and> now - createdAt s > SESSION_TTL_MS) \<Longrightarrow>
   getOrCreateSession now uuid (Some sid) st = (st(sid := None), None)"
  by (auto simp add: getOrCreateSession_def getSession_def fun_upd_idem)

lemma getOrCreateSession_existing:
  "sid \<noteq> [] \<Longrightarrow> st sid = Some s \<Longrightarrow> \<not> now - createdAt s > SESSION_TTL_MS \<Longrightarrow>
   getOrCreateSession now uuid (Some sid) st = (st, Some (sid, s))"
  by (auto simp add: getOrCreateSession_def getSession_def)


subsection \<open>Expiry (C7)\<close>

lemma handlePost_session_step:
  assumes "st sid = Some s" and "uuid \<noteq> sid"
  shows "fst (handlePost this now uuid req res st) sid
           \<in> {None, Some s, Some (s\<lparr>lastEventId := lastEventId s + 1\<rparr>)}"
proof (cases "requestBody req")
  case (Rejected e)
  with assms show ?thesis by (simp add: handlePost_rejected)
next
  case Malformed
  with assms show ?thesis by (simp add: handlePost_malformed)
next
  case (Parsed request)
  obtain st1 found where g: "getOrCreateSession now uuid (mcp_session_id req) st = (st1, found)"
    by (cases "getOrCreateSession now uuid (mcp_session_id req) st")
  show ?thesis
  proof (cases found)
    case None
    with Parsed g getOrCreateSession_none[of now uuid "mcp_session_id req" st st1] assms
    show ?thesis by (auto simp add: handlePost_no_session split: if_splits)
  next
    case (Some p)
    obtain k s' where p: "p = (k, s')" by (cases p)
    note some = getOrCreateSession_some[of now uuid "mcp_session_id req" st st1 k s']
    show ?thesis
    proof (cases "processRequest this request")
      case (Inl e)
      with Parsed g Some p some assms show ?thesis
        by (auto simp add: handlePost_raises split: if_splits)
    next
      case (Inr response)
      with Parsed g Some p some assms show ?thesis
        by (cases "wantsEventStream req")
           (auto simp add: handlePost_stream handlePost_direct split: if_splits)
    qed
  qed
qed

lemma handleGet_session_step:
  "st sid = Some s \<Longrightarrow> fst (handleGet now req res st) sid \<in> {None, Some s}"
  by (auto simp add: handleGet_def getSession_def Let_def split: option.splits)

lemma handleDelete_session_step:
  "st sid = Some s \<Longrightarrow> fst (handleDelete req res st) sid \<in> {None, Some s}"
  by (auto simp add: handleDelete_def split: option.splits)

lemma handleRequest_session_step:
  assumes "st sid = Some s" and "uuid \<noteq> sid"
  shows "fst (handleRequest this now uuid req st) sid
           \<in> {None, Some s, Some (s\<lparr>lastEventId := lastEventId s + 1\<rparr>)}"
  using handlePost_session_step
      [where st = st and sid = sid and s = s and uuid = uuid and this = this and now = now
         and req = req and res = "corsHeaders newResponse", OF assms]
    handleGet_session_step
      [where st = st and sid = sid and s = s and now = now and req = req
         and res = "corsHeaders newResponse", OF assms(1)]
    handleDelete_session_step
      [where st = st and sid = sid and s = s and req = req
         and res = "corsHeaders newResponse", OF assms(1)]
    assms(1)
  by (auto simp add: handleRequest_def Let_def case_prod_beta split: option.splits)

text \<open>
  C7. A session created more than the TTL (\<open>SESSION_TTL_MS\<close>, 30 minutes) before \<open>now\<close> is
  not found by the lookup, which removes it from the store; a GET on \<open>/mcp\<close> that names it is
  answered 404. The age is measured from \<open>createdAt\<close>, which no request changes: whatever
  request was handled in between, at whatever time, a session that is still in the store has
  the creation time it had, and the lookup at \<open>now\<close> fails all the same.
\<close>

theorem expired_session_unreachable:
  assumes "st sid = Some s" and "now - createdAt s > SESSION_TTL_MS"
  shows "SESSION_TTL_MS = 1800000
       \<and> getSession now sid st = (st(sid := None), None)
       \<and> (sid \<noteq> [] \<and> pathname req = Some ''/mcp'' \<and> httpMethod req = ''GET''
            \<and> mcp_session_id req = Some sid \<longrightarrow>
          fst (handleRequest this now uuid req st) = st(sid := None)
          \<and> statusOf (snd (handleRequest this now uuid req st)) = Some 404)
       \<and> (uuid' \<noteq> sid \<and> fst (handleRequest this' now' uuid' req' st) sid = Some s' \<longrightarrow>
          createdAt s' = createdAt s
          \<and> getSession now sid (fst (handleRequest this' now' uuid' req' st))
              = ((fst (handleRequest this' now' uuid' req' st))(sid := None), None))"
proof (intro conjI impI)
  show "SESSION_TTL_MS = 1800000" by (simp add: SESSION_TTL_MS_def)
  show g: "getSession now sid st = (st(sid := None), None)"
    using assms by (rule getSession_expired)
  {
    assume a: "sid \<noteq> [] \<and> pathname req = Some ''/mcp'' \<and> httpMethod req = ''GET''
            \<and> mcp_session_id req = Some sid"
    then have h: "handleRequest this now uuid req st =
        (st(sid := None),
         Inr (endWith (stringify (JObj [(''error'', JStr ''Session not found'')]))
                (writeHead 404 [(''Content-Type'', ''application/json'')]
                   (corsHeaders newResponse))))"
      using g by (simp add: handleRequest_get [where path = "''/mcp''"] handleGet_def)
    show "fst (handleRequest this now uuid req st) = st(sid := None)"
      using h by simp
    show "statusOf (snd (handleRequest this now uuid req st)) = Some 404"
      using h by simp
  }
  {
    assume b: "uuid' \<noteq> sid \<and> fst (handleRequest this' now' uuid' req' st) sid = Some s'"
    then show c: "createdAt s' = createdAt s"
      using handleRequest_session_step
        [where st = st and sid = sid and s = s and uuid = uuid' and this = this' and now = now'
           and req = req', OF assms(1)]
      by auto
    show "getSession now sid (fst (handleRequest this' now' uuid' req' st))
              = ((fst (handleRequest this' now' uuid' req' st))(sid := None), None)"
      using b c assms(2) by (simp add: getSession_expired)
  }
qed


lemma chunksOf_simps [simp]:
  "chunksOf (Inl e) = []"
  "chunksOf (Inr res) = chunks res"
  by (simp_all add: chunksOf_def)

theorem expired_session_unreachable_witness:
  "getSession 1800001 ''s0''
      (Map.empty(''s0'' \<mapsto>
         \<lparr>id_session = ''s0'', createdAt = 0, lastEventId = 3, pendingEvents = []\<rparr>))
     = (Map.empty, None)
   \<and> statusOf (snd (handleRequest exampleTransport 1800001 ''u1''
        (exampleMessage ''GET'' ''/mcp'' (Some ''s0'') None Malformed)
        (Map.empty(''s0'' \<mapsto>
           \<lparr>id_session = ''s0'', createdAt = 0, lastEventId = 3, pendingEvents = []\<rparr>))))
     = Some 404
   \<and> fst (getSession 1800001 ''s0''
        (fst (handleRequest exampleTransport 1800000 ''u1''
           (exampleMessage ''POST'' ''/mcp'' (Some ''s0'') (Some ''text/event-stream'')
              (Parsed pingRequest))
           (Map.empty(''s0'' \<mapsto>
              \<lparr>id_session = ''s0'', createdAt = 0, lastEventId = 3, pendingEvents = []\<rparr>)))))
       ''s0'' = None"
proof -
  let ?s = "\<lparr>id_session = ''s0'', createdAt = 0, lastEventId = 3, pendingEvents = []\<rparr>"
  let ?st = "Map.empty(''s0'' \<mapsto> ?s)"
  let ?post = "exampleMessage ''POST'' ''/mcp'' (Some ''s0'') (Some ''text/event-stream'')
              (Parsed pingRequest)"
  have used: "fst (handleRequest exampleTransport 1800000 ''u1'' ?post ?st) ''s0''
      = Some (?s\<lparr>lastEventId := 4\<rparr>)"
    by (simp add: exampleMessage_def pingRequest_def handleRequest_def handlePost_def
          getOrCreateSession_def getSession_def SESSION_TTL_MS_def processRequest_def Let_def)
  note t = expired_session_unreachable
    [where st = ?st and sid = "''s0''" and s = ?s and now = 1800001
       and req = "exampleMessage ''GET'' ''/mcp'' (Some ''s0'') None Malformed"
       and this = exampleTransport and uuid = "''u1''"
       and this' = exampleTransport and now' = 1800000 and uuid' = "''u1''" and req' = ?post
       and s' = "?s\<lparr>lastEventId := 4\<rparr>"]
  show ?thesis
    using t used by (simp add: SESSION_TTL_MS_def exampleMessage_def)
qed


subsection \<open>POST against a session that is not there (C10)\<close>

text \<open>
  C10, as the claim states it, fails when the body is not JSON: the body is parsed before the
  session is looked up, and the request is answered 400, not 404.
\<close>

theorem malformed_post_unknown_session_counterexample:
  "mcp_session_id (exampleMessage ''POST'' ''/mcp'' (Some ''nope'') None Malformed) = Some ''nope''
   \<and> (Map.empty :: sessions) ''nope'' = None
   \<and> statusOf (snd (handleRequest exampleTransport 0 ''u1''
         (exampleMessage ''POST'' ''/mcp'' (Some ''nope'') None Malformed) Map.empty)) = Some 400"
  by (simp add: exampleMessage_def handleRequest_def handlePost_def)

text \<open>
  C10, amended. A POST on \<open>/mcp\<close> carries a non-empty \<open>Mcp-Session-Id\<close> that names a session
  absent from the store or expired. When its body parses as JSON, the answer is 404 with the
  body \<open>{"error":"Session not found"}\<close> and without a session header, and the store is the old
  one without that entry; when the body is not JSON the answer is 400 and the store is
  untouched. In every case no session is added, and the outcome is the same for every
  transport object and every parsed body: neither the dispatcher nor the tool executor
  takes part.
\<close>

theorem post_unknown_session:
  assumes "pathname req = Some ''/mcp''" and "httpMethod req = ''POST''"
    and "mcp_session_id req = Some sid" and "sid \<noteq> []"
    and "st sid = None \<or> (\<exists>s. st sid = Some s \<and> now - createdAt s > SESSION_TTL_MS)"
  shows "(requestBody req = Parsed request \<longrightarrow>
            handleRequest this now uuid req st =
              (st(sid := None),
               Inr (endWith (stringify (JObj [(''error'', JStr ''Session not found'')]))
                      (writeHead 404 [(''Content-Type'', ''application/json'')]
                         (corsHeaders newResponse))))
            \<and> statusOf (snd (handleRequest this now uuid req st)) = Some 404
            \<and> handleRequest this now uuid req st
                = handleRequest this' now uuid (req\<lparr>requestBody := Parsed request'\<rparr>) st)
       \<and> (requestBody req = Malformed \<longrightarrow>
            fst (handleRequest this now uuid req st) = st
            \<and> statusOf (snd (handleRequest this now uuid req st)) = Some 400)
       \<and> (st sid = None \<longrightarrow> fst (handleRequest this now uuid req st) = st)
       \<and> dom (fst (handleRequest this now uuid req st)) \<subseteq> dom st
       \<and> (\<forall>k. k \<noteq> sid \<longrightarrow> fst (handleRequest this now uuid req st) k = st k)
       \<and> handleRequest this now uuid req st = handleRequest this' now uuid req st"
proof -
  have g: "getOrCreateSession now uuid (mcp_session_id req) st = (st(sid := None), None)"
    using assms by (simp add: getOrCreateSession_missing)
  have g': "getOrCreateSession now uuid (mcp_session_id (req\<lparr>requestBody := b\<rparr>)) st
              = (st(sid := None), None)" for b
    using g by simp
  have r: "handleRequest t now uuid q st = handlePost t now uuid q (corsHeaders newResponse) st"
    if "pathname q = Some ''/mcp''" "httpMethod q = ''POST''" for t q
    using that by (simp add: handleRequest_post)
  show ?thesis
  proof (cases "requestBody req")
    case (Rejected e)
    with assms show ?thesis by (simp add: r handlePost_rejected)
  next
    case Malformed
    with assms show ?thesis by (simp add: r handlePost_malformed)
  next
    case (Parsed j)
    have "handlePost t now uuid req (corsHeaders newResponse) st =
            (st(sid := None),
             Inr (endWith (stringify (JObj [(''error'', JStr ''Session not found'')]))
                    (writeHead 404 [(''Content-Type'', ''application/json'')]
                       (corsHeaders newResponse))))" for t
      using Parsed g by (simp add: handlePost_no_session)
    moreover have "handlePost t now uuid (req\<lparr>requestBody := Parsed j'\<rparr>)
                     (corsHeaders newResponse) st =
            (st(sid := None),
             Inr (endWith (stringify (JObj [(''error'', JStr ''Session not found'')]))
                    (writeHead 404 [(''Content-Type'', ''application/json'')]
                       (corsHeaders newResponse))))" for t j'
      using g' by (simp add: handlePost_no_session)
    ultimately show ?thesis
      using assms Parsed by (auto simp add: r fun_upd_idem)
  qed
qed


theorem post_unknown_session_witness:
  "handleRequest exampleTransport 1800001 ''u1''
      (exampleMessage ''POST'' ''/mcp'' (Some ''s0'') None (Parsed pingRequest))
      (Map.empty(''s0'' \<mapsto>
         \<lparr>id_session = ''s0'', createdAt = 0, lastEventId = 3, pendingEvents = []\<rparr>))
     = (Map.empty,
        Inr (endWith (stringify (JObj [(''error'', JStr ''Session not found'')]))
               (writeHead 404 [(''Content-Type'', ''application/json'')]
                  (corsHeaders newResponse))))
   \<and> statusOf (snd (handleRequest exampleTransport 0 ''u1''
        (exampleMessage ''POST'' ''/mcp'' (Some ''nope'') None (Parsed pingRequest))
        Map.empty)) = Some 404
   \<and> fst (handleRequest exampleTransport 0 ''u1''
        (exampleMessage ''POST'' ''/mcp'' (Some ''nope'') None (Parsed pingRequest))
        Map.empty) = Map.empty"
proof (intro conjI)
  let ?s = "\<lparr>id_session = ''s0'', createdAt = 0, lastEventId = 3, pendingEvents = []\<rparr>"
  show "handleRequest exampleTransport 1800001 ''u1''
      (exampleMessage ''POST'' ''/mcp'' (Some ''s0'') None (Parsed pingRequest))
      (Map.empty(''s0'' \<mapsto> ?s))
     = (Map.empty,
        Inr (endWith (stringify (JObj [(''error'', JStr ''Session not found'')]))
               (writeHead 404 [(''Content-Type'', ''application/json'')]
                  (corsHeaders newResponse))))"
    using post_unknown_session
      [where req = "exampleMessage ''POST'' ''/mcp'' (Some ''s0'') None (Parsed pingRequest)"
         and sid = "''s0''" and st = "Map.empty(''s0'' \<mapsto> ?s)" and now = 1800001
         and this = exampleTransport and uuid = "''u1''" and request = pingRequest]
    by (simp add: exampleMessage_def SESSION_TTL_MS_def)
  note t = post_unknown_session
      [where req = "exampleMessage ''POST'' ''/mcp'' (Some ''nope'') None (Parsed pingRequest)"
         and sid = "''nope''" and st = Map.empty and now = 0
         and this = exampleTransport and uuid = "''u1''" and request = pingRequest]
  show "statusOf (snd (handleRequest exampleTransport 0 ''u1''
        (exampleMessage ''POST'' ''/mcp'' (Some ''nope'') None (Parsed pingRequest))
        Map.empty)) = Some 404"
    using t by (simp add: exampleMessage_def)
  show "fst (handleRequest exampleTransport 0 ''u1''
        (exampleMessage ''POST'' ''/mcp'' (Some ''nope'') None (Parsed pingRequest))
        Map.empty) = Map.empty"
    using t by (simp add: exampleMessage_def)
qed

subsection \<open>Creating a session, using it again (C8)\<close>

text \<open>
  C8, as the claim states it, fails when the body is not JSON: a first POST without a session
  header is then answered 400 before any session is created, and the store stays empty.
\<close>

theorem malformed_first_post_counterexample:
  "mcp_session_id (exampleMessage ''POST'' ''/mcp'' None None Malformed) = None
   \<and> fst (handleRequest exampleTransport 0 ''u1''
        (exampleMessage ''POST'' ''/mcp'' None None Malformed) Map.empty) = Map.empty
   \<and> statusOf (snd (handleRequest exampleTransport 0 ''u1''
        (exampleMessage ''POST'' ''/mcp'' None None Malformed) Map.empty)) = Some 400"
  by (simp add: exampleMessage_def handleRequest_def handlePost_def)

text \<open>
  C8, amended. A POST on \<open>/mcp\<close> without \<open>Mcp-Session-Id\<close> whose body parses to a JSON value
  other than \<open>null\<close> creates a session whose id is the identifier drawn from \<open>randomUUID\<close>,
  with counter zero and an empty buffer, puts it into the store under that id, and returns the
  id in the \<open>Mcp-Session-Id\<close> header of the answer (status 200); when the answer is streamed
  the counter of the stored session is 1 afterwards. A later POST with such a body that
  carries the id of a session in the store, not expired, is handled against that session: no
  entry is added, the creation time stays, and a streamed answer has the event id that
  follows the counter, which becomes the new counter.
\<close>

theorem first_post_creates_session:
  "createSession now uuid st =
     (st(uuid \<mapsto> \<lparr>id_session = uuid, createdAt = now, lastEventId = 0, pendingEvents = []\<rparr>),
      \<lparr>id_session = uuid, createdAt = now, lastEventId = 0, pendingEvents = []\<rparr>)
   \<and> (pathname req = Some ''/mcp'' \<and> httpMethod req = ''POST'' \<and> mcp_session_id req = None
        \<and> requestBody req = Parsed request \<and> request \<noteq> JNull \<longrightarrow>
      (\<exists>res. handleRequest this now uuid req st =
          (st(uuid \<mapsto> \<lparr>id_session = uuid, createdAt = now,
                          lastEventId = (if wantsEventStream req then 1 else 0),
                          pendingEvents = []\<rparr>), Inr res)
         \<and> statusCode res = 200 \<and> getHeader res ''Mcp-Session-Id'' = Some uuid))
   \<and> (pathname req2 = Some ''/mcp'' \<and> httpMethod req2 = ''POST''
        \<and> mcp_session_id req2 = Some sid \<and> sid \<noteq> []
        \<and> requestBody req2 = Parsed request2 \<and> request2 \<noteq> JNull
        \<and> st1 sid = Some s \<and> \<not> now2 - createdAt s > SESSION_TTL_MS \<longrightarrow>
      (\<exists>res2 response2. processRequest this2 request2 = Inr response2
         \<and> handleRequest this2 now2 uuid2 req2 st1 =
             (if wantsEventStream req2 then st1(sid \<mapsto> s\<lparr>lastEventId := lastEventId s + 1\<rparr>)
              else st1, Inr res2)
         \<and> statusCode res2 = 200 \<and> getHeader res2 ''Mcp-Session-Id'' = Some sid
         \<and> chunks res2 = (if wantsEventStream req2 then sseFrame (lastEventId s + 1) response2
                          else [stringify (responseJson response2)])))"
proof (intro conjI impI)
  show "createSession now uuid st =
     (st(uuid \<mapsto> \<lparr>id_session = uuid, createdAt = now, lastEventId = 0, pendingEvents = []\<rparr>),
      \<lparr>id_session = uuid, createdAt = now, lastEventId = 0, pendingEvents = []\<rparr>)"
    by (simp add: createSession_def Let_def)
next
  assume a: "pathname req = Some ''/mcp'' \<and> httpMethod req = ''POST'' \<and> mcp_session_id req = None
        \<and> requestBody req = Parsed request \<and> request \<noteq> JNull"
  let ?new = "\<lparr>id_session = uuid, createdAt = now, lastEventId = 0, pendingEvents = []\<rparr>"
  have g: "getOrCreateSession now uuid (mcp_session_id req) st = (st(uuid \<mapsto> ?new), Some (uuid, ?new))"
    using a by (simp add: getOrCreateSession_create)
  obtain response where r: "processRequest this request = Inr response"
    using a processRequest_returns[of request this] by blast
  show "\<exists>res. handleRequest this now uuid req st =
          (st(uuid \<mapsto> \<lparr>id_session = uuid, createdAt = now,
                          lastEventId = (if wantsEventStream req then 1 else 0),
                          pendingEvents = []\<rparr>), Inr res)
         \<and> statusCode res = 200 \<and> getHeader res ''Mcp-Session-Id'' = Some uuid"
  proof (cases "wantsEventStream req")
    case True
    then show ?thesis
      using a handlePost_stream[OF _ g r True, of "corsHeaders newResponse"]
      by (simp add: handleRequest_post [where path = "''/mcp''"])
  next
    case False
    then show ?thesis
      using a handlePost_direct[OF _ g r False, of "corsHeaders newResponse"]
      by (simp add: handleRequest_post [where path = "''/mcp''"])
  qed
next
  assume b: "pathname req2 = Some ''/mcp'' \<and> httpMethod req2 = ''POST''
        \<and> mcp_session_id req2 = Some sid \<and> sid \<noteq> []
        \<and> requestBody req2 = Parsed request2 \<and> request2 \<noteq> JNull
        \<and> st1 sid = Some s \<and> \<not> now2 - createdAt s > SESSION_TTL_MS"
  have g: "getOrCreateSession now2 uuid2 (mcp_session_id req2) st1 = (st1, Some (sid, s))"
    using b by (simp add: getOrCreateSession_existing)
  obtain response2 where r: "processRequest this2 request2 = Inr response2"
    using b processRequest_returns[of request2 this2] by blast
  show "\<exists>res2 response2. processRequest this2 request2 = Inr response2
         \<and> handleRequest this2 now2 uuid2 req2 st1 =
             (if wantsEventStream req2 then st1(sid \<mapsto> s\<lparr>lastEventId := lastEventId s + 1\<rparr>)
              else st1, Inr res2)
         \<and> statusCode res2 = 200 \<and> getHeader res2 ''Mcp-Session-Id'' = Some sid
         \<and> chunks res2 = (if wantsEventStream req2 then sseFrame (lastEventId s + 1) response2
                          else [stringify (responseJson response2)])"
  proof (cases "wantsEventStream req2")
    case True
    then show ?thesis
      using b r handlePost_stream[OF _ g r True, of "corsHeaders newResponse"]
      by (simp add: handleRequest_post [where path = "''/mcp''"])
  next
    case False
    then show ?thesis
      using b r handlePost_direct[OF _ g r False, of "corsHeaders newResponse"]
      by (simp add: handleRequest_post [where path = "''/mcp''"])
  qed
qed


theorem first_post_creates_session_witness:
  "handleRequest exampleTransport 0 ''u1''
      (exampleMessage ''POST'' ''/mcp'' None None (Parsed pingRequest)) Map.empty
     = (Map.empty(''u1'' \<mapsto>
          \<lparr>id_session = ''u1'', createdAt = 0, lastEventId = 0, pendingEvents = []\<rparr>),
        Inr (endWith (stringify (responseJson \<lparr>id_rpc = Some (JNum ''1''), result = Some (JObj []), error = None\<rparr>))
               (writeHead 200 [(''Content-Type'', ''application/json'')]
                  (setHeader ''Mcp-Session-Id'' ''u1'' (corsHeaders newResponse)))))
   \<and> fst (handleRequest exampleTransport 0 ''u1''
        (exampleMessage ''POST'' ''/mcp'' None (Some ''text/event-stream'') (Parsed pingRequest))
        Map.empty)
     = Map.empty(''u1'' \<mapsto>
          \<lparr>id_session = ''u1'', createdAt = 0, lastEventId = 1, pendingEvents = []\<rparr>)
   \<and> fst (handleRequest exampleTransport 1000 ''u2''
        (exampleMessage ''POST'' ''/mcp'' (Some ''u1'') (Some ''text/event-stream'')
           (Parsed pingRequest))
        (Map.empty(''u1'' \<mapsto>
          \<lparr>id_session = ''u1'', createdAt = 0, lastEventId = 1, pendingEvents = []\<rparr>)))
     = Map.empty(''u1'' \<mapsto>
          \<lparr>id_session = ''u1'', createdAt = 0, lastEventId = 2, pendingEvents = []\<rparr>)
   \<and> chunksOf (snd (handleRequest exampleTransport 1000 ''u2''
        (exampleMessage ''POST'' ''/mcp'' (Some ''u1'') (Some ''text/event-stream'')
           (Parsed pingRequest))
        (Map.empty(''u1'' \<mapsto>
          \<lparr>id_session = ''u1'', createdAt = 0, lastEventId = 1, pendingEvents = []\<rparr>))))
     = [''id: 2\<newline>'',
        ''data: {'' @ quote ''jsonrpc'' @ '':'' @ quote ''2.0'' @ '','' @ quote ''id'' @ '':1,''
          @ quote ''result'' @ '':{}}\<newline>\<newline>'']"
proof -
  let ?s1 = "\<lparr>id_session = ''u1'', createdAt = 0, lastEventId = 1, pendingEvents = []\<rparr>"
  have ping: "processRequest exampleTransport pingRequest
                = Inr \<lparr>id_rpc = Some (JNum ''1''), result = Some (JObj []), error = None\<rparr>"
    by (simp add: processRequest_def pingRequest_def)
  have nn: "pingRequest \<noteq> JNull"
    by (simp add: pingRequest_def)
  have direct: "\<not> wantsEventStream (exampleMessage ''POST'' ''/mcp'' None None (Parsed pingRequest))"
    by (simp add: wantsEventStream_def exampleMessage_def)
  have stream: "wantsEventStream (exampleMessage ''POST'' ''/mcp'' h (Some ''text/event-stream'')
                  (Parsed pingRequest))" for h
    by (simp add: wantsEventStream_def exampleMessage_def)
  note a = first_post_creates_session
    [where req = "exampleMessage ''POST'' ''/mcp'' None None (Parsed pingRequest)"
       and request = pingRequest and this = exampleTransport and now = 0 and uuid = "''u1''"
       and st = Map.empty, THEN conjunct2, THEN conjunct1]
  note b = first_post_creates_session
    [where req = "exampleMessage ''POST'' ''/mcp'' None (Some ''text/event-stream'')
                    (Parsed pingRequest)"
       and request = pingRequest and this = exampleTransport and now = 0 and uuid = "''u1''"
       and st = Map.empty, THEN conjunct2, THEN conjunct1]
  note c = first_post_creates_session
    [where ?req2.0 = "exampleMessage ''POST'' ''/mcp'' (Some ''u1'') (Some ''text/event-stream'')
                    (Parsed pingRequest)"
       and ?request2.0 = pingRequest and ?this2.0 = exampleTransport and ?now2.0 = 1000
       and ?uuid2.0 = "''u2''" and sid = "''u1''" and s = ?s1
       and ?st1.0 = "Map.empty(''u1'' \<mapsto> ?s1)", THEN conjunct2, THEN conjunct2]
  have 1: "handleRequest exampleTransport 0 ''u1''
      (exampleMessage ''POST'' ''/mcp'' None None (Parsed pingRequest)) Map.empty
     = (Map.empty(''u1'' \<mapsto>
          \<lparr>id_session = ''u1'', createdAt = 0, lastEventId = 0, pendingEvents = []\<rparr>),
        Inr (endWith (stringify (responseJson \<lparr>id_rpc = Some (JNum ''1''), result = Some (JObj []), error = None\<rparr>))
               (writeHead 200 [(''Content-Type'', ''application/json'')]
                  (setHeader ''Mcp-Session-Id'' ''u1'' (corsHeaders newResponse)))))"
    using a nn direct ping
    by (simp add: exampleMessage_def handleRequest_def handlePost_def getOrCreateSession_def
          createSession_def Let_def)
  have 2: "fst (handleRequest exampleTransport 0 ''u1''
        (exampleMessage ''POST'' ''/mcp'' None (Some ''text/event-stream'') (Parsed pingRequest))
        Map.empty)
     = Map.empty(''u1'' \<mapsto> ?s1)"
    using b nn stream[of None] by (auto simp add: exampleMessage_def)
  have 3: "fst (handleRequest exampleTransport 1000 ''u2''
        (exampleMessage ''POST'' ''/mcp'' (Some ''u1'') (Some ''text/event-stream'')
           (Parsed pingRequest)) (Map.empty(''u1'' \<mapsto> ?s1)))
     = Map.empty(''u1'' \<mapsto> ?s1\<lparr>lastEventId := 2\<rparr>)
    \<and> chunksOf (snd (handleRequest exampleTransport 1000 ''u2''
        (exampleMessage ''POST'' ''/mcp'' (Some ''u1'') (Some ''text/event-stream'')
           (Parsed pingRequest)) (Map.empty(''u1'' \<mapsto> ?s1))))
     = sseFrame 2 \<lparr>id_rpc = Some (JNum ''1''), result = Some (JObj []), error = None\<rparr>"
    using c nn stream[of "Some ''u1''"] ping
    by (auto simp add: exampleMessage_def SESSION_TTL_MS_def)
  have 4: "sseFrame 2 \<lparr>id_rpc = Some (JNum ''1''), result = Some (JObj []), error = None\<rparr>
     = [''id: 2\<newline>'',
        ''data: {'' @ quote ''jsonrpc'' @ '':'' @ quote ''2.0'' @ '','' @ quote ''id'' @ '':1,''
          @ quote ''result'' @ '':{}}\<newline>\<newline>'']"
    by (simp add: sseFrame_def responseJson_def quote_def quoteChar_def showInt_def
          showNat.simps)
  show ?thesis
    using 1 2 3 4 by simp
qed

subsection \<open>The buffer of a session (C1)\<close>

text \<open>
  C1. The claim is that a streamed answer is also stored in the buffer of the session. The
  code allocates the event id and writes the frame, but no statement of the transport ever
  appends to \<open>pendingEvents\<close>. After one streamed ping on the empty store the counter of the
  new session is 1, the frame \<open>id: 1\<close> with the ping result has been written, the buffer of
  the session is empty, and a GET that asks for everything after event 0 replays nothing.
\<close>

theorem streamed_ping_buffer_stays_empty:
  "fst (handleRequest exampleTransport 0 ''u1''
      (exampleMessage ''POST'' ''/mcp'' None (Some ''text/event-stream'') (Parsed pingRequest))
      Map.empty) ''u1''
     = Some \<lparr>id_session = ''u1'', createdAt = 0, lastEventId = 1, pendingEvents = []\<rparr>
   \<and> chunksOf (snd (handleRequest exampleTransport 0 ''u1''
        (exampleMessage ''POST'' ''/mcp'' None (Some ''text/event-stream'') (Parsed pingRequest))
        Map.empty))
     = [''id: 1\<newline>'',
        ''data: {'' @ quote ''jsonrpc'' @ '':'' @ quote ''2.0'' @ '','' @ quote ''id'' @ '':1,''
          @ quote ''result'' @ '':{}}\<newline>\<newline>'']
   \<and> chunksOf (snd (handleRequest exampleTransport 1 ''u2''
        ((exampleMessage ''GET'' ''/mcp'' (Some ''u1'') None Malformed)
           \<lparr>last_event_id := Some ''0''\<rparr>)
        (fst (handleRequest exampleTransport 0 ''u1''
           (exampleMessage ''POST'' ''/mcp'' None (Some ''text/event-stream'')
              (Parsed pingRequest))
           Map.empty)))) = []"
  by (simp add: exampleMessage_def pingRequest_def handleRequest_def handlePost_def
        handleGet_def getOrCreateSession_def createSession_def getSession_def
        SESSION_TTL_MS_def processRequest_def Let_def sseFrame_def responseJson_def
        quote_def quoteChar_def showInt_def showNat.simps)


subsection \<open>Printing and reading event ids\<close>

lemma digit_char:
  assumes "k < 10"
  shows "isDigit (''0123456789'' ! k)" and "digitValue (''0123456789'' ! k) = k"
proof -
  from assms have "k \<in> {0, 1, 2, 3, 4, 5, 6, 7, 8, 9}" by auto
  then show "isDigit (''0123456789'' ! k)" and "digitValue (''0123456789'' ! k) = k"
    by (auto simp add: isDigit_def digitValue_def)
qed

lemma isDigit_not_sign: "isDigit c \<Longrightarrow> \<not> isWhiteSpace c \<and> c \<noteq> CHR ''-'' \<and> c \<noteq> CHR ''+''"
  by (auto simp add: isDigit_def isWhiteSpace_def)

lemma showNat_digits: "c \<in> set (showNat n) \<Longrightarrow> isDigit c"
proof (induction n arbitrary: c rule: showNat.induct)
  case (1 n)
  show ?case
  proof (cases "n < 10")
    case True
    with "1.prems" show ?thesis by (simp add: showNat.simps [of n] digit_char)
  next
    case False
    with "1.prems" "1.IH" show ?thesis
      by (auto simp add: showNat.simps [of n] digit_char)
  qed
qed

lemma showNat_nonempty: "showNat n \<noteq> []"
  by (simp add: showNat.simps [of n])

lemma digitsValue_snoc: "digitsValue (ds @ [c]) = 10 * digitsValue ds + digitValue c"
  by (simp add: digitsValue_def)

lemma digitsValue_showNat: "digitsValue (showNat n) = n"
proof (induction n rule: showNat.induct)
  case (1 n)
  show ?case
  proof (cases "n < 10")
    case True
    then show ?thesis by (simp add: showNat.simps [of n] digitsValue_def digit_char)
  next
    case False
    with "1.IH" show ?thesis
      by (simp add: showNat.simps [of n] digitsValue_snoc digit_char)
  qed
qed

lemma takeWhile_digits:
  assumes "\<And>c. c \<in> set ds \<Longrightarrow> isDigit c" and "r = [] \<or> \<not> isDigit (hd r)"
  shows "takeWhile isDigit (ds @ r) = ds"
proof -
  have "takeWhile isDigit r = []"
    using assms(2) by (cases r) auto
  with assms(1) show ?thesis by (simp add: takeWhile_append2)
qed

lemma parseInt_digits:
  assumes "\<And>c. c \<in> set ds \<Longrightarrow> isDigit c" and "ds \<noteq> []" and "r = [] \<or> \<not> isDigit (hd r)"
  shows "parseInt (ds @ r) = Some (int (digitsValue ds))"
    and "parseInt (CHR ''-'' # ds @ r) = Some (- int (digitsValue ds))"
proof -
  obtain d ds' where ds: "ds = d # ds'"
    using assms(2) by (cases ds) auto
  have d: "\<not> isWhiteSpace d" "d \<noteq> CHR ''-''" "d \<noteq> CHR ''+''"
    using assms(1) [of d] isDigit_not_sign [of d] ds by auto
  have "takeWhile isDigit (ds @ r) = ds"
    by (rule takeWhile_digits) (use assms in auto)
  then have tw: "takeWhile isDigit (d # ds' @ r) = d # ds'"
    using ds by simp
  show "parseInt (ds @ r) = Some (int (digitsValue ds))"
    using d tw by (simp add: parseInt_def ds Let_def)
  have m: "\<not> isWhiteSpace CHR ''-''"
    by (simp add: isWhiteSpace_def)
  show "parseInt (CHR ''-'' # ds @ r) = Some (- int (digitsValue ds))"
    using m tw by (simp add: parseInt_def ds Let_def)
qed

lemma parseInt_showInt:
  assumes "r = [] \<or> \<not> isDigit (hd r)"
  shows "parseInt (showInt i @ r) = Some i"
proof (cases "i < 0")
  case True
  then show ?thesis
    using parseInt_digits(2) [OF showNat_digits showNat_nonempty assms, of "nat (- i)"]
    by (simp add: showInt_def digitsValue_showNat)
next
  case False
  then show ?thesis
    using parseInt_digits(1) [OF showNat_digits showNat_nonempty assms, of "nat i"]
    by (simp add: showInt_def digitsValue_showNat)
qed

lemma frameIds_append: "frameIds (xs @ ys) = frameIds xs @ frameIds ys"
  by (simp add: frameIds_def List.map_filter_def)

lemma frameIds_sseFrame [simp]: "frameIds (sseFrame n r) = [n]"
proof -
  have "parseInt (showInt n @ ''\<newline>'') = Some n"
    by (rule parseInt_showInt) (simp add: isDigit_def)
  then show ?thesis
    by (simp add: frameIds_def sseFrame_def List.map_filter_def)
qed

lemma frameIds_frames [simp]:
  "frameIds (concat (map (\<lambda>e. sseFrame (id_event e) (data e)) es)) = map id_event es"
  by (induction es) (simp_all add: frameIds_append, simp add: frameIds_def List.map_filter_def)

lemma frameIds_json [simp]: "frameIds [stringify (JObj kvs)] = []"
  by (simp add: frameIds_def List.map_filter_def)

lemma frameIds_nil [simp]: "frameIds [] = []"
  by (simp add: frameIds_def List.map_filter_def)


subsection \<open>The replay loop\<close>

lemma parseInt_empty: "parseInt [] = None"
  by (simp add: parseInt_def)

text \<open>
  What the loop of \<open>handleGet\<close> does with a buffer, whatever it holds: it writes the frames
  whose id is greater than the number read from \<open>Last-Event-ID\<close>, in the order of the
  buffer, and leaves the response open.
\<close>

lemma handleGet_filters_buffer:
  assumes "pathname req = Some ''/mcp''" and "httpMethod req = ''GET''"
    and "mcp_session_id req = Some sid" and "sid \<noteq> []"
    and "st sid = Some s" and "\<not> now - createdAt s > SESSION_TTL_MS"
    and "last_event_id req = Some h" and "parseInt h = Some N"
  shows "\<exists>res. handleRequest this now uuid req st = (st, Inr res)
           \<and> statusCode res = 200 \<and> \<not> ended res
           \<and> chunks res =
               concat (map (\<lambda>e. [''id: '' @ showInt (id_event e) @ ''\<newline>'',
                                  ''data: '' @ stringify (responseJson (data e))
                                    @ ''\<newline>\<newline>''])
                         (filter (\<lambda>e. N < id_event e) (pendingEvents s)))
           \<and> frameIds (chunks res) = filter (\<lambda>n. N < n) (map id_event (pendingEvents s))"
proof -
  let ?missed = "filter (\<lambda>e. N < id_event e) (pendingEvents s)"
  let ?res = "fold (\<lambda>e. writeFrame (id_event e) (data e)) ?missed
                (writeHead 200 [(''Content-Type'', ''text/event-stream''),
                                (''Cache-Control'', ''no-cache''),
                                (''Connection'', ''keep-alive''),
                                (''Mcp-Session-Id'', sid)] (corsHeaders newResponse))"
  have h: "h \<noteq> []"
    using assms(8) parseInt_empty by auto
  have g: "getSession now sid st = (st, Some s)"
    using assms(5,6) by (rule getSession_live)
  have "handleGet now req (corsHeaders newResponse) st = (st, ?res)"
    using assms(3,4,7,8) h g by (simp add: handleGet_def Let_def)
  then have run: "handleRequest this now uuid req st = (st, Inr ?res)"
    using assms(1,2) by (simp add: handleRequest_get [where path = "''/mcp''"])
  have ids: "frameIds (chunks ?res) = filter (\<lambda>n. N < n) (map id_event (pendingEvents s))"
    by (simp add: filter_map comp_def)
  have written: "chunks ?res =
      concat (map (\<lambda>e. [''id: '' @ showInt (id_event e) @ ''\<newline>'',
                         ''data: '' @ stringify (responseJson (data e)) @ ''\<newline>\<newline>''])
                ?missed)"
    by (simp add: sseFrame_def)
  show ?thesis
  proof (intro exI [of _ ?res] conjI)
    show "handleRequest this now uuid req st = (st, Inr ?res)" by (rule run)
    show "statusCode ?res = 200" by simp
    show "\<not> ended ?res" by simp
    show "chunks ?res =
      concat (map (\<lambda>e. [''id: '' @ showInt (id_event e) @ ''\<newline>'',
                         ''data: '' @ stringify (responseJson (data e)) @ ''\<newline>\<newline>''])
                ?missed)" by (rule written)
    show "frameIds (chunks ?res) = filter (\<lambda>n. N < n) (map id_event (pendingEvents s))"
      by (rule ids)
  qed
qed

subsection \<open>What a response emits for a session\<close>

lemma emittedIds_raised [simp]: "emittedIds sid (Inl e) = []"
  by (simp add: emittedIds_def)

lemma emittedIds_plain [simp]:
  "emittedIds sid (Inr (endWith body (writeHead code [(''Content-Type'', ct)]
      (corsHeaders newResponse)))) = []"
  "emittedIds sid (Inr (endResponse (writeHead code [] (corsHeaders newResponse)))) = []"
  by (simp_all add: emittedIds_def)

lemma emittedIds_stream [simp]:
  "emittedIds sid (Inr (endResponse (writeFrame n r
      (writeHead 200 [(''Content-Type'', ''text/event-stream''),
                      (''Cache-Control'', ''no-cache''),
                      (''Connection'', ''keep-alive'')]
         (setHeader ''Mcp-Session-Id'' k (corsHeaders newResponse))))))
     = (if k = sid then [n] else [])"
  by (simp add: emittedIds_def)

lemma frameIds_responseJson [simp]: "frameIds [stringify (responseJson r)] = []"
  unfolding responseJson_def by (rule frameIds_json)

lemma emittedIds_direct [simp]:
  "emittedIds sid (Inr (endWith (stringify (responseJson r))
      (writeHead 200 [(''Content-Type'', ''application/json'')]
         (setHeader ''Mcp-Session-Id'' k (corsHeaders newResponse))))) = []"
  by (simp add: emittedIds_def)

lemma emittedIds_replay [simp]:
  "emittedIds sid (Inr (fold (\<lambda>e. writeFrame (id_event e) (data e)) es
      (writeHead 200 [(''Content-Type'', ''text/event-stream''),
                      (''Cache-Control'', ''no-cache''),
                      (''Connection'', ''keep-alive''),
                      (''Mcp-Session-Id'', k)] (corsHeaders newResponse))))
     = (if k = sid then map id_event es else [])"
  "emittedIds sid (Inr (writeHead 200 [(''Content-Type'', ''text/event-stream''),
                      (''Cache-Control'', ''no-cache''),
                      (''Connection'', ''keep-alive''),
                      (''Mcp-Session-Id'', k)] (corsHeaders newResponse))) = []"
  by (simp_all add: emittedIds_def)


subsection \<open>One request, seen from one session\<close>

lemma handlePost_present:
  assumes "st sid = Some s" and "uuid \<noteq> sid"
  shows "(emittedIds sid (snd (handlePost this now uuid req (corsHeaders newResponse) st)) = []
          \<and> fst (handlePost this now uuid req (corsHeaders newResponse) st) sid \<in> {None, Some s})
       \<or> (emittedIds sid (snd (handlePost this now uuid req (corsHeaders newResponse) st))
            = [lastEventId s + 1]
          \<and> fst (handlePost this now uuid req (corsHeaders newResponse) st) sid
            = Some (s\<lparr>lastEventId := lastEventId s + 1\<rparr>))"
proof (cases "requestBody req")
  case (Rejected e)
  with assms show ?thesis by (simp add: handlePost_rejected)
next
  case Malformed
  with assms show ?thesis by (simp add: handlePost_malformed)
next
  case (Parsed request)
  obtain st1 found where g: "getOrCreateSession now uuid (mcp_session_id req) st = (st1, found)"
    by (cases "getOrCreateSession now uuid (mcp_session_id req) st")
  show ?thesis
  proof (cases found)
    case None
    with Parsed g getOrCreateSession_none[of now uuid "mcp_session_id req" st st1] assms
    show ?thesis by (auto simp add: handlePost_no_session split: if_splits)
  next
    case (Some p)
    obtain k s' where p: "p = (k, s')" by (cases p)
    note some = getOrCreateSession_some[of now uuid "mcp_session_id req" st st1 k s']
    show ?thesis
    proof (cases "processRequest this request")
      case (Inl e)
      with Parsed g Some p some assms show ?thesis
        by (auto simp add: handlePost_raises split: if_splits)
    next
      case (Inr response)
      with Parsed g Some p some assms show ?thesis
        by (cases "wantsEventStream req")
           (auto simp add: handlePost_stream handlePost_direct split: if_splits)
    qed
  qed
qed

lemma handlePost_absent:
  assumes "st sid = None" and "uuid \<noteq> sid"
  shows "emittedIds sid (snd (handlePost this now uuid req (corsHeaders newResponse) st)) = []
       \<and> fst (handlePost this now uuid req (corsHeaders newResponse) st) sid = None"
proof (cases "requestBody req")
  case (Rejected e)
  with assms show ?thesis by (simp add: handlePost_rejected)
next
  case Malformed
  with assms show ?thesis by (simp add: handlePost_malformed)
next
  case (Parsed request)
  obtain st1 found where g: "getOrCreateSession now uuid (mcp_session_id req) st = (st1, found)"
    by (cases "getOrCreateSession now uuid (mcp_session_id req) st")
  show ?thesis
  proof (cases found)
    case None
    with Parsed g getOrCreateSession_none[of now uuid "mcp_session_id req" st st1] assms
    show ?thesis by (auto simp add: handlePost_no_session split: if_splits)
  next
    case (Some p)
    obtain k s' where p: "p = (k, s')" by (cases p)
    note some = getOrCreateSession_some[of now uuid "mcp_session_id req" st st1 k s']
    show ?thesis
    proof (cases "processRequest this request")
      case (Inl e)
      with Parsed g Some p some assms show ?thesis
        by (auto simp add: handlePost_raises split: if_splits)
    next
      case (Inr response)
      with Parsed g Some p some assms show ?thesis
        by (cases "wantsEventStream req")
           (auto simp add: handlePost_stream handlePost_direct split: if_splits)
    qed
  qed
qed

lemma handlePost_created:
  assumes "st sid = None"
  shows "(emittedIds sid (snd (handlePost this now sid req (corsHeaders newResponse) st)) = []
          \<and> fst (handlePost this now sid req (corsHeaders newResponse) st) sid
              \<in> {None, Some \<lparr>id_session = sid, createdAt = now, lastEventId = 0,
                               pendingEvents = []\<rparr>})
       \<or> (emittedIds sid (snd (handlePost this now sid req (corsHeaders newResponse) st)) = [1]
          \<and> fst (handlePost this now sid req (corsHeaders newResponse) st) sid
              = Some \<lparr>id_session = sid, createdAt = now, lastEventId = 1, pendingEvents = []\<rparr>)"
proof (cases "requestBody req")
  case (Rejected e)
  with assms show ?thesis by (simp add: handlePost_rejected)
next
  case Malformed
  with assms show ?thesis by (simp add: handlePost_malformed)
next
  case (Parsed request)
  obtain st1 found where g: "getOrCreateSession now sid (mcp_session_id req) st = (st1, found)"
    by (cases "getOrCreateSession now sid (mcp_session_id req) st")
  show ?thesis
  proof (cases found)
    case None
    with Parsed g getOrCreateSession_none[of now sid "mcp_session_id req" st st1] assms
    show ?thesis by (auto simp add: handlePost_no_session split: if_splits)
  next
    case (Some p)
    obtain k s' where p: "p = (k, s')" by (cases p)
    note some = getOrCreateSession_some[of now sid "mcp_session_id req" st st1 k s']
    show ?thesis
    proof (cases "processRequest this request")
      case (Inl e)
      with Parsed g Some p some assms show ?thesis
        by (auto simp add: handlePost_raises split: if_splits)
    next
      case (Inr response)
      with Parsed g Some p some assms show ?thesis
        by (cases "wantsEventStream req")
           (auto simp add: handlePost_stream handlePost_direct split: if_splits)
    qed
  qed
qed

lemma handleGet_emits:
  "emittedIds sid (Inr (snd (handleGet now req (corsHeaders newResponse) st)))
     = [] \<or> (\<exists>s. st sid = Some s \<and> pendingEvents s \<noteq> [])"
  by (auto simp add: handleGet_def getSession_def Let_def split: option.splits if_splits)

lemma handleDelete_emits:
  "emittedIds sid (Inr (snd (handleDelete req (corsHeaders newResponse) st))) = []"
  by (auto simp add: handleDelete_def split: option.splits)

lemma handleGet_absent: "st sid = None \<Longrightarrow> fst (handleGet now req res st) sid = None"
  by (auto simp add: handleGet_def getSession_def Let_def split: option.splits)

lemma handleDelete_absent: "st sid = None \<Longrightarrow> fst (handleDelete req res st) sid = None"
  by (auto simp add: handleDelete_def split: option.splits)


lemma handleRequest_present:
  assumes "st sid = Some s" and "pendingEvents s = []" and "uuid \<noteq> sid"
  shows "(emittedIds sid (snd (handleRequest this now uuid req st)) = []
          \<and> fst (handleRequest this now uuid req st) sid \<in> {None, Some s})
       \<or> (emittedIds sid (snd (handleRequest this now uuid req st)) = [lastEventId s + 1]
          \<and> fst (handleRequest this now uuid req st) sid
            = Some (s\<lparr>lastEventId := lastEventId s + 1\<rparr>))"
proof -
  note post = handlePost_present
    [where st = st and sid = sid and s = s and uuid = uuid and this = this and now = now
       and req = req, OF assms(1,3)]
  note get = handleGet_emits [of sid now req st]
    handleGet_session_step
      [where st = st and sid = sid and s = s and now = now and req = req
         and res = "corsHeaders newResponse", OF assms(1)]
  note del = handleDelete_emits [of sid req st]
    handleDelete_session_step
      [where st = st and sid = sid and s = s and req = req
         and res = "corsHeaders newResponse", OF assms(1)]
  show ?thesis
  proof (cases "pathname req")
    case None
    with assms show ?thesis by (simp add: handleRequest_invalid_url)
  next
    case (Some path)
    show ?thesis
    proof (cases "httpMethod req = ''OPTIONS''")
      case True
      with Some assms show ?thesis by (simp add: handleRequest_options)
    next
      case opt: False
      show ?thesis
      proof (cases "path = ''/mcp'' \<or> path = ''/''")
        case mcp: True
        consider "httpMethod req = ''POST''" | "httpMethod req = ''GET''"
          | "httpMethod req = ''DELETE''"
          | "httpMethod req \<notin> {''OPTIONS'', ''POST'', ''GET'', ''DELETE''}"
          using opt by auto
        then show ?thesis
        proof cases
          case 1
          with Some mcp post show ?thesis by (simp add: handleRequest_post)
        next
          case 2
          with Some mcp get assms show ?thesis
            by (auto simp add: handleRequest_get case_prod_beta)
        next
          case 3
          with Some mcp del assms show ?thesis
            by (auto simp add: handleRequest_delete case_prod_beta)
        next
          case 4
          with Some mcp assms show ?thesis by (simp add: handleRequest_other_method)
        qed
      next
        case False
        with Some opt assms show ?thesis
          by (cases "path = ''/health''")
             (simp_all add: handleRequest_health handleRequest_other_path)
      qed
    qed
  qed
qed

lemma handleRequest_absent:
  assumes "st sid = None" and "uuid \<noteq> sid"
  shows "emittedIds sid (snd (handleRequest this now uuid req st)) = []
       \<and> fst (handleRequest this now uuid req st) sid = None"
proof -
  note post = handlePost_absent
    [where st = st and sid = sid and uuid = uuid and this = this and now = now
       and req = req, OF assms]
  note get = handleGet_emits [of sid now req st]
    handleGet_absent
      [where st = st and sid = sid and now = now and req = req
         and res = "corsHeaders newResponse", OF assms(1)]
  note del = handleDelete_emits [of sid req st]
    handleDelete_absent
      [where st = st and sid = sid and req = req
         and res = "corsHeaders newResponse", OF assms(1)]
  show ?thesis
  proof (cases "pathname req")
    case None
    with assms show ?thesis by (simp add: handleRequest_invalid_url)
  next
    case (Some path)
    show ?thesis
    proof (cases "httpMethod req = ''OPTIONS''")
      case True
      with Some assms show ?thesis by (simp add: handleRequest_options)
    next
      case opt: False
      show ?thesis
      proof (cases "path = ''/mcp'' \<or> path = ''/''")
        case mcp: True
        consider "httpMethod req = ''POST''" | "httpMethod req = ''GET''"
          | "httpMethod req = ''DELETE''"
          | "httpMethod req \<notin> {''OPTIONS'', ''POST'', ''GET'', ''DELETE''}"
          using opt by auto
        then show ?thesis
        proof cases
          case 1
          with Some mcp post show ?thesis by (simp add: handleRequest_post)
        next
          case 2
          with Some mcp get assms show ?thesis
            by (auto simp add: handleRequest_get case_prod_beta)
        next
          case 3
          with Some mcp del assms show ?thesis
            by (auto simp add: handleRequest_delete case_prod_beta)
        next
          case 4
          with Some mcp assms show ?thesis by (simp add: handleRequest_other_method)
        qed
      next
        case False
        with Some opt assms show ?thesis
          by (cases "path = ''/health''")
             (simp_all add: handleRequest_health handleRequest_other_path)
      qed
    qed
  qed
qed

lemma handleRequest_created:
  assumes "st sid = None"
  shows "(emittedIds sid (snd (handleRequest this now sid req st)) = []
          \<and> fst (handleRequest this now sid req st) sid
              \<in> {None, Some \<lparr>id_session = sid, createdAt = now, lastEventId = 0,
                               pendingEvents = []\<rparr>})
       \<or> (emittedIds sid (snd (handleRequest this now sid req st)) = [1]
          \<and> fst (handleRequest this now sid req st) sid
              = Some \<lparr>id_session = sid, createdAt = now, lastEventId = 1, pendingEvents = []\<rparr>)"
proof -
  note post = handlePost_created
    [where st = st and sid = sid and this = this and now = now and req = req, OF assms]
  note get = handleGet_emits [of sid now req st]
    handleGet_absent
      [where st = st and sid = sid and now = now and req = req
         and res = "corsHeaders newResponse", OF assms(1)]
  note del = handleDelete_emits [of sid req st]
    handleDelete_absent
      [where st = st and sid = sid and req = req
         and res = "corsHeaders newResponse", OF assms(1)]
  show ?thesis
  proof (cases "pathname req")
    case None
    with assms show ?thesis by (simp add: handleRequest_invalid_url)
  next
    case (Some path)
    show ?thesis
    proof (cases "httpMethod req = ''OPTIONS''")
      case True
      with Some assms show ?thesis by (simp add: handleRequest_options)
    next
      case opt: False
      show ?thesis
      proof (cases "path = ''/mcp'' \<or> path = ''/''")
        case mcp: True
        consider "httpMethod req = ''POST''" | "httpMethod req = ''GET''"
          | "httpMethod req = ''DELETE''"
          | "httpMethod req \<notin> {''OPTIONS'', ''POST'', ''GET'', ''DELETE''}"
          using opt by auto
        then show ?thesis
        proof cases
          case 1
          with Some mcp post show ?thesis by (simp add: handleRequest_post)
        next
          case 2
          with Some mcp get assms show ?thesis
            by (auto simp add: handleRequest_get case_prod_beta)
        next
          case 3
          with Some mcp del assms show ?thesis
            by (auto simp add: handleRequest_delete case_prod_beta)
        next
          case 4
          with Some mcp assms show ?thesis by (simp add: handleRequest_other_method)
        qed
      next
        case False
        with Some opt assms show ?thesis
          by (cases "path = ''/health''")
             (simp_all add: handleRequest_health handleRequest_other_path)
      qed
    qed
  qed
qed


subsection \<open>Runs (C4)\<close>

lemma sweep_session: "sweep now st sid \<in> {None, st sid}"
  by (simp add: sweep_def split: option.splits)

lemma run_Cons:
  "fst (run (e # es) st) = fst (run es (fst (step e st)))"
  "snd (run (e # es) st) = snd (step e st) @ snd (run es (fst (step e st)))"
  by (simp_all add: case_prod_beta)

lemma step_request:
  "fst (step (Request this now uuid req) st) = fst (handleRequest this now uuid req st)"
  "snd (step (Request this now uuid req) st) = [snd (handleRequest this now uuid req st)]"
  by (simp_all add: case_prod_beta)

lemma step_sweep:
  "fst (step (Sweep now) st) = sweep now st"
  "snd (step (Sweep now) st) = []"
  by simp_all

lemma run_Nil: "run [] st = (st, [])"
  by simp

declare step.simps [simp del] run.simps [simp del]

lemma run_append:
  "fst (run (es @ es') st) = fst (run es' (fst (run es st)))"
  "snd (run (es @ es') st) = snd (run es st) @ snd (run es' (fst (run es st)))"
  by (induction es arbitrary: st) (simp_all add: run_Nil run_Cons)

lemma run_absent:
  assumes "st sid = None" and "sid \<notin> set (concat (map drawnUuid evs))"
  shows "concat (map (emittedIds sid) (snd (run evs st))) = [] \<and> fst (run evs st) sid = None"
  using assms
proof (induction evs arbitrary: st)
  case Nil
  then show ?case by (simp add: run_Nil)
next
  case (Cons e es)
  have "concat (map (emittedIds sid) (snd (step e st))) = [] \<and> fst (step e st) sid = None"
  proof (cases e)
    case (Request this now uuid req)
    with Cons.prems handleRequest_absent [of st sid uuid this now req]
    show ?thesis by (auto simp add: step_request)
  next
    case (Sweep now)
    with Cons.prems sweep_session [of now st sid] show ?thesis by (auto simp add: step_sweep)
  qed
  moreover from this Cons.prems
  have "concat (map (emittedIds sid) (snd (run es (fst (step e st))))) = []
          \<and> fst (run es (fst (step e st))) sid = None"
    by (intro Cons.IH) auto
  ultimately show ?case by (simp add: run_Cons)
qed

lemma run_present:
  assumes "st sid = Some s" and "pendingEvents s = []"
    and "sid \<notin> set (concat (map drawnUuid evs))"
  shows "\<exists>m\<ge>lastEventId s.
           concat (map (emittedIds sid) (snd (run evs st))) = [lastEventId s + 1..m]
           \<and> (\<forall>s'. fst (run evs st) sid = Some s' \<longrightarrow>
                 lastEventId s' = m \<and> pendingEvents s' = [])"
  using assms
proof (induction evs arbitrary: st s)
  case Nil
  then show ?case by (intro exI [of _ "lastEventId s"]) (simp add: run_Nil)
next
  case (Cons e es)
  let ?st1 = "fst (step e st)"
  let ?out1 = "concat (map (emittedIds sid) (snd (step e st)))"
  let ?rest = "concat (map (emittedIds sid) (snd (run es ?st1)))"
  have rest: "sid \<notin> set (concat (map drawnUuid es))"
    using Cons.prems(3) by simp
  have "(?out1 = [] \<and> ?st1 sid \<in> {None, Some s})
      \<or> (?out1 = [lastEventId s + 1] \<and> ?st1 sid = Some (s\<lparr>lastEventId := lastEventId s + 1\<rparr>))"
  proof (cases e)
    case (Request this now uuid req)
    with Cons.prems handleRequest_present [of st sid s uuid this now req]
    show ?thesis by (auto simp add: step_request)
  next
    case (Sweep now)
    with Cons.prems(1) sweep_session [of now st sid] show ?thesis
      by (auto simp add: step_sweep)
  qed
  then consider
      (gone) "?out1 = []" "?st1 sid = None"
    | (same) "?out1 = []" "?st1 sid = Some s"
    | (bumped) "?out1 = [lastEventId s + 1]"
             "?st1 sid = Some (s\<lparr>lastEventId := lastEventId s + 1\<rparr>)"
    by auto
  then show ?case
  proof cases
    case gone
    with rest run_absent [where st = ?st1 and sid = sid and evs = es] show ?thesis
      by (intro exI [of _ "lastEventId s"]) (simp add: run_Cons)
  next
    case same
    from same(2) Cons.prems(2) rest Cons.IH [where st = ?st1 and s = s] obtain m where
      "lastEventId s \<le> m" "?rest = [lastEventId s + 1..m]"
      "\<forall>s'. fst (run es ?st1) sid = Some s' \<longrightarrow> lastEventId s' = m \<and> pendingEvents s' = []"
      by blast
    with same show ?thesis
      by (intro exI [of _ m]) (simp add: run_Cons)
  next
    case bumped
    have "pendingEvents (s\<lparr>lastEventId := lastEventId s + 1\<rparr>) = []"
      using Cons.prems(2) by simp
    with bumped(2) rest
      Cons.IH [where st = ?st1 and s = "s\<lparr>lastEventId := lastEventId s + 1\<rparr>"]
    obtain m where m:
      "lastEventId s + 1 \<le> m" "?rest = [lastEventId s + 1 + 1..m]"
      "\<forall>s'. fst (run es ?st1) sid = Some s' \<longrightarrow> lastEventId s' = m \<and> pendingEvents s' = []"
      by auto
    have "[lastEventId s + 1..m] = (lastEventId s + 1) # [lastEventId s + 1 + 1..m]"
      using m(1) by (rule upto_rec1)
    with bumped m show ?thesis
      by (intro exI [of _ m]) (simp add: run_Cons)
  qed
qed

lemma run_fresh:
  assumes "st sid = None" and "distinct (concat (map drawnUuid evs))"
  shows "\<exists>m\<ge>0.
           concat (map (emittedIds sid) (snd (run evs st))) = [1..m]
           \<and> (\<forall>s'. fst (run evs st) sid = Some s' \<longrightarrow>
                 lastEventId s' = m \<and> pendingEvents s' = []
                 \<and> sid \<in> set (concat (map drawnUuid evs)))"
  using assms
proof (induction evs arbitrary: st)
  case Nil
  then show ?case by (intro exI [of _ 0]) (simp add: run_Nil)
next
  case (Cons e es)
  let ?st1 = "fst (step e st)"
  let ?out1 = "concat (map (emittedIds sid) (snd (step e st)))"
  let ?rest = "concat (map (emittedIds sid) (snd (run es ?st1)))"
  have d: "distinct (concat (map drawnUuid es))"
    using Cons.prems(2) by simp
  show ?case
  proof (cases "sid \<in> set (drawnUuid e)")
    case False
    have "?out1 = [] \<and> ?st1 sid = None"
    proof (cases e)
      case (Request this now uuid req)
      with False Cons.prems(1) handleRequest_absent [of st sid uuid this now req]
      show ?thesis by (auto simp add: step_request)
    next
      case (Sweep now)
      with Cons.prems(1) sweep_session [of now st sid] show ?thesis
      by (auto simp add: step_sweep)
    qed
    moreover from this d Cons.IH [where st = ?st1] obtain m where
      "0 \<le> m" "?rest = [1..m]"
      "\<forall>s'. fst (run es ?st1) sid = Some s' \<longrightarrow>
          lastEventId s' = m \<and> pendingEvents s' = [] \<and> sid \<in> set (concat (map drawnUuid es))"
      by blast
    ultimately show ?thesis
      by (intro exI [of _ m]) (simp add: run_Cons)
  next
    case True
    then obtain this now req where e: "e = Request this now sid req"
      by (cases e) auto
    have rest: "sid \<notin> set (concat (map drawnUuid es))"
      using Cons.prems(2) e by auto
    let ?new = "\<lparr>id_session = sid, createdAt = now, lastEventId = 0, pendingEvents = []\<rparr>"
    from handleRequest_created
      [where st = st and sid = sid and this = this and now = now and req = req]
      Cons.prems(1) e
    consider
        (none) "?out1 = []" "?st1 sid = None"
      | (made) "?out1 = []" "?st1 sid = Some ?new"
      | (sent) "?out1 = [1]" "?st1 sid = Some (?new\<lparr>lastEventId := 1\<rparr>)"
      by (auto simp add: step_request)
    then show ?thesis
    proof cases
      case none
      with rest run_absent [where st = ?st1 and sid = sid and evs = es] show ?thesis
        by (intro exI [of _ 0]) (simp add: run_Cons)
    next
      case made
      from made(2) rest run_present [where st = ?st1 and sid = sid and evs = es and s = ?new]
      obtain m where
        "0 \<le> m" "?rest = [1..m]"
        "\<forall>s'. fst (run es ?st1) sid = Some s' \<longrightarrow> lastEventId s' = m \<and> pendingEvents s' = []"
        by auto
      with made e show ?thesis
        by (intro exI [of _ m]) (simp add: run_Cons)
    next
      case sent
      from sent(2) rest
        run_present [where st = ?st1 and sid = sid and evs = es
                       and s = "?new\<lparr>lastEventId := 1\<rparr>"]
      obtain m where m:
        "1 \<le> m" "?rest = [2..m]"
        "\<forall>s'. fst (run es ?st1) sid = Some s' \<longrightarrow> lastEventId s' = m \<and> pendingEvents s' = []"
        by auto
      have "[1..m] = 1 # [2..m]"
        using m(1) upto_rec1 [of 1 m] by simp
      with sent m e show ?thesis
        by (intro exI [of _ m]) (simp add: run_Cons)
    qed
  qed
qed


text \<open>
  C4. The store starts empty, and the identifiers drawn from \<open>randomUUID\<close> over a run are
  pairwise distinct. Then for every session id, the event ids emitted for that session over
  a run of requests and cleanup ticks are \<open>1, 2, ..., m\<close> in this order: strictly
  increasing, without repetition. While the session is in the store its counter is \<open>m\<close>, the
  number of frames emitted for it so far, and however the run goes on, the counter of the
  session, as long as it is in the store, is not smaller.
\<close>

theorem event_ids_count_up:
  assumes "distinct (concat (map drawnUuid (evs @ evs')))"
  shows "\<exists>m\<ge>0.
           concat (map (emittedIds sid) (snd (run evs Map.empty))) = [1..m]
           \<and> sorted_wrt (<) (concat (map (emittedIds sid) (snd (run evs Map.empty))))
           \<and> distinct (concat (map (emittedIds sid) (snd (run evs Map.empty))))
           \<and> (\<forall>s. fst (run evs Map.empty) sid = Some s \<longrightarrow>
                 lastEventId s = m
                 \<and> (\<forall>s'. fst (run (evs @ evs') Map.empty) sid = Some s' \<longrightarrow>
                        lastEventId s \<le> lastEventId s'))"
proof -
  have d: "distinct (concat (map drawnUuid evs))"
    using assms by simp
  from run_fresh [where st = Map.empty and sid = sid and evs = evs] d obtain m where m:
    "0 \<le> m" "concat (map (emittedIds sid) (snd (run evs Map.empty))) = [1..m]"
    "\<forall>s'. fst (run evs Map.empty) sid = Some s' \<longrightarrow>
        lastEventId s' = m \<and> pendingEvents s' = [] \<and> sid \<in> set (concat (map drawnUuid evs))"
    by auto
  have later: "lastEventId s \<le> lastEventId s'"
    if s: "fst (run evs Map.empty) sid = Some s"
      and s': "fst (run (evs @ evs') Map.empty) sid = Some s'" for s s'
  proof -
    have "pendingEvents s = []" and "sid \<in> set (concat (map drawnUuid evs))"
      using m(3) s by auto
    then have "sid \<notin> set (concat (map drawnUuid evs'))"
      using assms by auto
    with s \<open>pendingEvents s = []\<close>
      run_present [where st = "fst (run evs Map.empty)" and sid = sid and s = s and evs = evs']
    obtain m' where "lastEventId s \<le> m'"
      "\<forall>s'. fst (run evs' (fst (run evs Map.empty))) sid = Some s' \<longrightarrow> lastEventId s' = m'"
      by auto
    with s' show ?thesis by (simp add: run_append)
  qed
  show ?thesis
    using m later by (intro exI [of _ m]) auto
qed

theorem event_ids_count_up_witness:
  "concat (map (emittedIds ''u1'') (snd (run exampleRun Map.empty))) = [1, 2, 3]"
proof -
  have d: "distinct (concat (map drawnUuid (exampleRun @ [])))"
    by (simp add: exampleRun_def)
  from event_ids_count_up [OF d, of "''u1''"] obtain m where m:
    "0 \<le> m" "concat (map (emittedIds ''u1'') (snd (run exampleRun Map.empty))) = [1..m]"
    "\<forall>s. fst (run exampleRun Map.empty) ''u1'' = Some s \<longrightarrow> lastEventId s = m"
    by auto
  have "fst (run exampleRun Map.empty) ''u1''
          = Some \<lparr>id_session = ''u1'', createdAt = 0, lastEventId = 3, pendingEvents = []\<rparr>"
    by (simp add: exampleRun_def run_Cons run_Nil step_request step_sweep sweep_def
          exampleMessage_def pingRequest_def handleRequest_def handlePost_def handleGet_def
          getOrCreateSession_def createSession_def getSession_def SESSION_TTL_MS_def
          processRequest_def Let_def)
  with m have "m = 3" by simp
  with m(2) show ?thesis by (simp add: upto.simps)
qed

subsection \<open>Replay after a disconnect (C3)\<close>


end
